theory Spec2Isabelle
  imports Main
begin

section \<open>JavaScript values and the platform\<close>

text \<open>
  The page works on untyped values: \<open>response.json()\<close> returns \<open>any\<close>, and the
  TypeScript interfaces are erased at run time. A value is therefore modelled as the
  run-time value it is. Numbers are the integers (positions, HTTP statuses and move
  counts are the only numbers the page reads); an object is the list of its own
  properties, read by the first entry with the key.
\<close>

datatype jsval =
    JUndefined
  | JNull
  | JBool bool
  | JNum int
  | JStr string
  | JArr "jsval list"
  | JObj "(string \<times> jsval) list"

text \<open>What \<open>if (v)\<close>, \<open>v && w\<close> and \<open>v || w\<close> test.\<close>

fun truthy :: "jsval \<Rightarrow> bool" where
  "truthy JUndefined = False"
| "truthy JNull = False"
| "truthy (JBool b) = b"
| "truthy (JNum n) = (n \<noteq> 0)"
| "truthy (JStr s) = (s \<noteq> [])"
| "truthy (JArr xs) = True"
| "truthy (JObj kvs) = True"

text \<open>
  A thrown value: an instance of \<open>Error\<close> with its message, or anything else
  (\<open>err instanceof Error\<close> is false).
\<close>

datatype thrown = ErrorObj string | NonError

text \<open>
  What the JavaScript engine supplies and the repository does not contain:
  \<open>JSON.parse\<close> (\<open>Inl m\<close> is a SyntaxError with message \<open>m\<close>) and the
  messages of the TypeErrors raised by reading a property of \<open>null\<close> or
  \<open>undefined\<close> and by calling a member that is not a function.
\<close>

record platform =
  JSON_parse :: "string \<Rightarrow> string + jsval"
  nullish_read_message :: "jsval \<Rightarrow> string \<Rightarrow> string"
  not_function_message :: "string \<Rightarrow> string"

text \<open>
  \<open>v.k\<close> for the property names the page reads (none of them is inherited from a
  prototype): a TypeError on \<open>null\<close> and \<open>undefined\<close>, the own property of an
  object, \<open>undefined\<close> otherwise.
\<close>

definition getprop :: "platform \<Rightarrow> jsval \<Rightarrow> string \<Rightarrow> thrown + jsval" where
  "getprop pf v k =
     (case v of
        JUndefined \<Rightarrow> Inl (ErrorObj (nullish_read_message pf v k))
      | JNull \<Rightarrow> Inl (ErrorObj (nullish_read_message pf v k))
      | JObj kvs \<Rightarrow> Inr (case map_of kvs k of None \<Rightarrow> JUndefined | Some x \<Rightarrow> x)
      | _ \<Rightarrow> Inr JUndefined)"

text \<open>\<open>v?.k\<close>: \<open>undefined\<close> on \<open>null\<close> and \<open>undefined\<close>, never a TypeError.\<close>

definition getprop_opt :: "jsval \<Rightarrow> string \<Rightarrow> jsval" where
  "getprop_opt v k =
     (case v of
        JObj kvs \<Rightarrow> (case map_of kvs k of None \<Rightarrow> JUndefined | Some x \<Rightarrow> x)
      | _ \<Rightarrow> JUndefined)"

text \<open>\<open>a || b\<close> on values.\<close>

definition js_or :: "jsval \<Rightarrow> jsval \<Rightarrow> jsval" where
  "js_or a b = (if truthy a then a else b)"

text \<open>Decimal digits of a number, as a template literal prints it.\<close>

fun string_of_nat :: "nat \<Rightarrow> string" where
  "string_of_nat n =
     (if n < 10 then [char_of (48 + n)]
      else string_of_nat (n div 10) @ [char_of (48 + n mod 10)])"

declare string_of_nat.simps [simp del]

section \<open>Promises, requests and the session\<close>

text \<open>
  What an \<open>await\<close> meets: a promise that never settles, one that rejects, one that
  fulfils.
\<close>

datatype 'a promise = Pending | Rejected thrown | Fulfilled 'a

text \<open>The \<open>Response\<close> of \<open>fetch\<close>, with the outcome of its \<open>json()\<close>.\<close>

record http_response =
  ok :: bool
  status :: nat
  json :: "jsval promise"

text \<open>The one request the page sends; the body is kept as the object it serialises.\<close>

record request =
  url :: string
  http_method :: string
  content_type :: string
  body_message :: string
  body_agent_id :: string

definition AGENT_ID :: string where
  "AGENT_ID = ''6914372f83addc655aec4b11''"

definition agent_request :: "string \<Rightarrow> request" where
  "agent_request msg =
     \<lparr>url = ''/api/agent'', http_method = ''POST'', content_type = ''application/json'',
      body_message = msg, body_agent_id = AGENT_ID\<rparr>"

text \<open>
  The \<open>useState\<close> cells of \<open>TicTacToe\<close>. The unnamed revision has the first six;
  \<open>src/app/page.tsx\<close> adds \<open>showWinnerModal\<close>.
\<close>

record session =
  gameState :: jsval
  gameStatus :: jsval
  winner :: jsval
  loading :: bool
  message :: jsval
  error :: jsval

record page_session = session +
  showWinnerModal :: bool

text \<open>
  How a block of statements ends: normally, by a throw, or suspended for ever at an
  \<open>await\<close> whose promise never settles. For the whole \<open>async\<close> function these are
  its promise fulfilled, rejected (a fault nobody handled) and pending.
\<close>

datatype completion = Normal | Threw thrown | Suspended

text \<open>
  One call of an operation: the session it leaves, the requests it sent, how it ended.
  A call reads \<open>loading\<close> from the session it starts on, and every setter stores a
  value that does not depend on the session, so a run is the setters applied in order
  to that session; handlers that run while the call awaits are not part of its run.
\<close>

record 'st run =
  final :: 'st
  sent :: "request list"
  ended :: completion

text \<open>The \<open>catch\<close> clause of all four operations.\<close>

definition errorMsg :: "thrown \<Rightarrow> string" where
  "errorMsg err = (case err of ErrorObj m \<Rightarrow> m | NonError \<Rightarrow> ''An error occurred'')"

section \<open>src/app/page.tsx\<close>

text \<open>
  The setters of \<open>makeMove\<close> on the game payload. Each setter acts on the session at
  once, so a throw leaves the session as the setters before it made it.
\<close>

definition makeMove_apply :: "platform \<Rightarrow> jsval \<Rightarrow> page_session \<Rightarrow> completion \<times> page_session" where
  "makeMove_apply pf gameData st =
     (case getprop pf gameData ''game_state'' of
        Inl e \<Rightarrow> (Threw e, st)
      | Inr game_state \<Rightarrow>
         (let st = st\<lparr>gameState := game_state\<rparr> in
          case getprop pf gameData ''game_status'' of
            Inl e \<Rightarrow> (Threw e, st)
          | Inr game_status \<Rightarrow>
             (let st = st\<lparr>gameStatus := game_status\<rparr> in
              case getprop pf gameData ''message'' of
                Inl e \<Rightarrow> (Threw e, st)
              | Inr msg \<Rightarrow>
                 (let st = st\<lparr>message := msg\<rparr> in
                  if game_status = JStr ''won'' \<or> game_status = JStr ''draw'' then
                    (case getprop pf gameData ''winner'' of
                       Inl e \<Rightarrow> (Threw e, st)
                     | Inr w \<Rightarrow>
                        (let st = st\<lparr>winner := w\<rparr>;
                             st = st\<lparr>showWinnerModal := True\<rparr>
                         in (Normal, st)))
                  else (Normal, st)))))"

text \<open>
  The body of \<open>if (data.success && data.response)\<close> in \<open>makeMove\<close>: a string
  \<open>response\<close> goes through \<open>JSON.parse\<close>, anything else is the payload.
\<close>

definition makeMove_success :: "platform \<Rightarrow> jsval \<Rightarrow> page_session \<Rightarrow> completion \<times> page_session" where
  "makeMove_success pf data st =
     (case getprop pf data ''response'' of
        Inl e \<Rightarrow> (Threw e, st)
      | Inr response \<Rightarrow>
         (case (case response of
                  JStr s \<Rightarrow> (case JSON_parse pf s of
                               Inl m \<Rightarrow> Inl (ErrorObj m)
                             | Inr v \<Rightarrow> Inr v)
                | _ \<Rightarrow> Inr response) of
            Inl e \<Rightarrow> (Threw e, st)
          | Inr gameData \<Rightarrow> makeMove_apply pf gameData st))"

text \<open>From \<open>data\<close> on: the test of the envelope and its two branches.\<close>

definition makeMove_data :: "platform \<Rightarrow> jsval \<Rightarrow> page_session \<Rightarrow> completion \<times> page_session" where
  "makeMove_data pf data st =
     (case getprop pf data ''success'' of
        Inl e \<Rightarrow> (Threw e, st)
      | Inr success \<Rightarrow>
         (case (if truthy success then getprop pf data ''response'' else Inr success) of
            Inl e \<Rightarrow> (Threw e, st)
          | Inr cond \<Rightarrow>
             if truthy cond then makeMove_success pf data st
             else
               (case getprop pf data ''error'' of
                  Inl e \<Rightarrow> (Threw e, st)
                | Inr err \<Rightarrow>
                   (Normal, st\<lparr>error := js_or err (JStr ''Failed to process move'')\<rparr>))))"

text \<open>The \<open>try\<close> block of \<open>makeMove\<close>, from the settled \<open>fetch\<close> on.\<close>

definition makeMove_try :: "platform \<Rightarrow> http_response promise \<Rightarrow> page_session \<Rightarrow> completion \<times> page_session" where
  "makeMove_try pf fetched st =
     (case fetched of
        Pending \<Rightarrow> (Suspended, st)
      | Rejected e \<Rightarrow> (Threw e, st)
      | Fulfilled response \<Rightarrow>
         if \<not> ok response then
           (Threw (ErrorObj (''API error: '' @ string_of_nat (status response))), st)
         else
           (case json response of
              Pending \<Rightarrow> (Suspended, st)
            | Rejected e \<Rightarrow> (Threw e, st)
            | Fulfilled data \<Rightarrow> makeMove_data pf data st))"

text \<open>
  \<open>try\<close>/\<open>catch\<close>/\<open>finally\<close> as all four operations use it: the \<open>catch\<close> clause stores
  the message, the \<open>finally\<close> clause clears \<open>loading\<close>; a block suspended at an
  \<open>await\<close> reaches neither.
\<close>

definition catch_finally :: "request list \<Rightarrow> completion \<times> ('a session_scheme) \<Rightarrow> ('a session_scheme) run" where
  "catch_finally reqs r =
     (case r of
        (Suspended, st) \<Rightarrow> \<lparr>final = st, sent = reqs, ended = Suspended\<rparr>
      | (Threw err, st) \<Rightarrow>
         (let st = st\<lparr>error := JStr (errorMsg err)\<rparr>;
              st = st\<lparr>loading := False\<rparr>
          in \<lparr>final = st, sent = reqs, ended = Normal\<rparr>)
      | (Normal, st) \<Rightarrow>
         (let st = st\<lparr>loading := False\<rparr>
          in \<lparr>final = st, sent = reqs, ended = Normal\<rparr>))"

text \<open>
  \<open>makeMove(position)\<close>; \<open>fetched\<close> is what the environment answers to the request,
  if one is sent.
\<close>

definition makeMove :: "platform \<Rightarrow> http_response promise \<Rightarrow> nat \<Rightarrow> page_session \<Rightarrow> page_session run" where
  "makeMove pf fetched position st =
     (if loading st then \<lparr>final = st, sent = [], ended = Normal\<rparr>
      else
        (let st = st\<lparr>loading := True\<rparr>;
             st = st\<lparr>error := JNull\<rparr>;
             req = agent_request (''move '' @ string_of_nat position)
         in catch_finally [req] (makeMove_try pf fetched st)))"

text \<open>
  \<open>startNewGame()\<close>: the same \<open>try\<close> block without the winner, after five setters
  and with no test of \<open>loading\<close>.
\<close>

definition startNewGame_apply :: "platform \<Rightarrow> jsval \<Rightarrow> page_session \<Rightarrow> completion \<times> page_session" where
  "startNewGame_apply pf gameData st =
     (case getprop pf gameData ''game_state'' of
        Inl e \<Rightarrow> (Threw e, st)
      | Inr game_state \<Rightarrow>
         (let st = st\<lparr>gameState := game_state\<rparr> in
          case getprop pf gameData ''game_status'' of
            Inl e \<Rightarrow> (Threw e, st)
          | Inr game_status \<Rightarrow>
             (let st = st\<lparr>gameStatus := game_status\<rparr> in
              case getprop pf gameData ''message'' of
                Inl e \<Rightarrow> (Threw e, st)
              | Inr msg \<Rightarrow> (Normal, st\<lparr>message := msg\<rparr>))))"

definition startNewGame_success :: "platform \<Rightarrow> jsval \<Rightarrow> page_session \<Rightarrow> completion \<times> page_session" where
  "startNewGame_success pf data st =
     (case getprop pf data ''response'' of
        Inl e \<Rightarrow> (Threw e, st)
      | Inr response \<Rightarrow>
         (case (case response of
                  JStr s \<Rightarrow> (case JSON_parse pf s of
                               Inl m \<Rightarrow> Inl (ErrorObj m)
                             | Inr v \<Rightarrow> Inr v)
                | _ \<Rightarrow> Inr response) of
            Inl e \<Rightarrow> (Threw e, st)
          | Inr gameData \<Rightarrow> startNewGame_apply pf gameData st))"

definition startNewGame_data :: "platform \<Rightarrow> jsval \<Rightarrow> page_session \<Rightarrow> completion \<times> page_session" where
  "startNewGame_data pf data st =
     (case getprop pf data ''success'' of
        Inl e \<Rightarrow> (Threw e, st)
      | Inr success \<Rightarrow>
         (case (if truthy success then getprop pf data ''response'' else Inr success) of
            Inl e \<Rightarrow> (Threw e, st)
          | Inr cond \<Rightarrow>
             if truthy cond then startNewGame_success pf data st
             else
               (case getprop pf data ''error'' of
                  Inl e \<Rightarrow> (Threw e, st)
                | Inr err \<Rightarrow>
                   (Normal, st\<lparr>error := js_or err (JStr ''Failed to start new game'')\<rparr>))))"

definition startNewGame_try :: "platform \<Rightarrow> http_response promise \<Rightarrow> page_session \<Rightarrow> completion \<times> page_session" where
  "startNewGame_try pf fetched st =
     (case fetched of
        Pending \<Rightarrow> (Suspended, st)
      | Rejected e \<Rightarrow> (Threw e, st)
      | Fulfilled response \<Rightarrow>
         if \<not> ok response then
           (Threw (ErrorObj (''API error: '' @ string_of_nat (status response))), st)
         else
           (case json response of
              Pending \<Rightarrow> (Suspended, st)
            | Rejected e \<Rightarrow> (Threw e, st)
            | Fulfilled data \<Rightarrow> startNewGame_data pf data st))"

definition startNewGame :: "platform \<Rightarrow> http_response promise \<Rightarrow> page_session \<Rightarrow> page_session run" where
  "startNewGame pf fetched st =
     (let st = st\<lparr>loading := True\<rparr>;
          st = st\<lparr>error := JNull\<rparr>;
          st = st\<lparr>winner := JNull\<rparr>;
          st = st\<lparr>showWinnerModal := False\<rparr>;
          st = st\<lparr>gameStatus := JStr ''in_progress''\<rparr>;
          req = agent_request ''new game''
      in catch_finally [req] (startNewGame_try pf fetched st))"

text \<open>The \<open>useState\<close> initial values, and the two handlers of \<open>TicTacToe\<close>.\<close>

definition initial_session :: page_session where
  "initial_session =
     \<lparr>gameState = JNull, gameStatus = JStr ''in_progress'', winner = JNull, loading = False,
      message = JStr ''Starting new game...'', error = JNull, showWinnerModal = False\<rparr>"

definition handleCellClick :: "platform \<Rightarrow> http_response promise \<Rightarrow> nat \<Rightarrow> page_session \<Rightarrow> page_session run" where
  "handleCellClick pf fetched position st = makeMove pf fetched position st"

definition handlePlayAgain :: "platform \<Rightarrow> http_response promise \<Rightarrow> page_session \<Rightarrow> page_session run" where
  "handlePlayAgain pf fetched st =
     (let st = st\<lparr>showWinnerModal := False\<rparr>
      in startNewGame pf fetched st)"

section \<open>src/unnamed/part\_000\<close>

text \<open>
  The other revision of the page: the envelope is accepted on \<open>data.status === 'success'\<close>,
  \<open>data.response\<close> is used as it is, the HTTP status is not read, and the message of the
  \<open>else\<close> branch is fixed.
\<close>

definition makeMove_apply_part000 :: "platform \<Rightarrow> jsval \<Rightarrow> session \<Rightarrow> completion \<times> session" where
  "makeMove_apply_part000 pf gameData st =
     (case getprop pf gameData ''game_state'' of
        Inl e \<Rightarrow> (Threw e, st)
      | Inr game_state \<Rightarrow>
         (let st = st\<lparr>gameState := game_state\<rparr> in
          case getprop pf gameData ''game_status'' of
            Inl e \<Rightarrow> (Threw e, st)
          | Inr game_status \<Rightarrow>
             (let st = st\<lparr>gameStatus := game_status\<rparr> in
              case getprop pf gameData ''message'' of
                Inl e \<Rightarrow> (Threw e, st)
              | Inr msg \<Rightarrow>
                 (let st = st\<lparr>message := msg\<rparr> in
                  if game_status = JStr ''won'' \<or> game_status = JStr ''draw'' then
                    (case getprop pf gameData ''winner'' of
                       Inl e \<Rightarrow> (Threw e, st)
                     | Inr w \<Rightarrow> (Normal, st\<lparr>winner := w\<rparr>))
                  else (Normal, st)))))"

definition makeMove_success_part000 :: "platform \<Rightarrow> jsval \<Rightarrow> session \<Rightarrow> completion \<times> session" where
  "makeMove_success_part000 pf data st =
     (case getprop pf data ''response'' of
        Inl e \<Rightarrow> (Threw e, st)
      | Inr gameData \<Rightarrow> makeMove_apply_part000 pf gameData st)"

definition makeMove_data_part000 :: "platform \<Rightarrow> jsval \<Rightarrow> session \<Rightarrow> completion \<times> session" where
  "makeMove_data_part000 pf data st =
     (case getprop pf data ''status'' of
        Inl e \<Rightarrow> (Threw e, st)
      | Inr status_value \<Rightarrow>
         (case (if status_value = JStr ''success'' then getprop pf data ''response''
                else Inr (JBool False)) of
            Inl e \<Rightarrow> (Threw e, st)
          | Inr cond \<Rightarrow>
             if truthy cond then makeMove_success_part000 pf data st
             else (Normal, st\<lparr>error := JStr ''Failed to process move''\<rparr>)))"

definition makeMove_try_part000 :: "platform \<Rightarrow> http_response promise \<Rightarrow> session \<Rightarrow> completion \<times> session" where
  "makeMove_try_part000 pf fetched st =
     (case fetched of
        Pending \<Rightarrow> (Suspended, st)
      | Rejected e \<Rightarrow> (Threw e, st)
      | Fulfilled response \<Rightarrow>
         (case json response of
            Pending \<Rightarrow> (Suspended, st)
          | Rejected e \<Rightarrow> (Threw e, st)
          | Fulfilled data \<Rightarrow> makeMove_data_part000 pf data st))"

definition makeMove_part000 :: "platform \<Rightarrow> http_response promise \<Rightarrow> nat \<Rightarrow> session \<Rightarrow> session run" where
  "makeMove_part000 pf fetched position st =
     (if loading st then \<lparr>final = st, sent = [], ended = Normal\<rparr>
      else
        (let st = st\<lparr>loading := True\<rparr>;
             st = st\<lparr>error := JNull\<rparr>;
             req = agent_request (''move '' @ string_of_nat position)
         in catch_finally [req] (makeMove_try_part000 pf fetched st)))"

definition startNewGame_apply_part000 :: "platform \<Rightarrow> jsval \<Rightarrow> session \<Rightarrow> completion \<times> session" where
  "startNewGame_apply_part000 pf gameData st =
     (case getprop pf gameData ''game_state'' of
        Inl e \<Rightarrow> (Threw e, st)
      | Inr game_state \<Rightarrow>
         (let st = st\<lparr>gameState := game_state\<rparr> in
          case getprop pf gameData ''game_status'' of
            Inl e \<Rightarrow> (Threw e, st)
          | Inr game_status \<Rightarrow>
             (let st = st\<lparr>gameStatus := game_status\<rparr> in
              case getprop pf gameData ''message'' of
                Inl e \<Rightarrow> (Threw e, st)
              | Inr msg \<Rightarrow> (Normal, st\<lparr>message := msg\<rparr>))))"

definition startNewGame_success_part000 :: "platform \<Rightarrow> jsval \<Rightarrow> session \<Rightarrow> completion \<times> session" where
  "startNewGame_success_part000 pf data st =
     (case getprop pf data ''response'' of
        Inl e \<Rightarrow> (Threw e, st)
      | Inr gameData \<Rightarrow> startNewGame_apply_part000 pf gameData st)"

definition startNewGame_data_part000 :: "platform \<Rightarrow> jsval \<Rightarrow> session \<Rightarrow> completion \<times> session" where
  "startNewGame_data_part000 pf data st =
     (case getprop pf data ''status'' of
        Inl e \<Rightarrow> (Threw e, st)
      | Inr status_value \<Rightarrow>
         (case (if status_value = JStr ''success'' then getprop pf data ''response''
                else Inr (JBool False)) of
            Inl e \<Rightarrow> (Threw e, st)
          | Inr cond \<Rightarrow>
             if truthy cond then startNewGame_success_part000 pf data st
             else (Normal, st\<lparr>error := JStr ''Failed to start new game''\<rparr>)))"

definition startNewGame_try_part000 :: "platform \<Rightarrow> http_response promise \<Rightarrow> session \<Rightarrow> completion \<times> session" where
  "startNewGame_try_part000 pf fetched st =
     (case fetched of
        Pending \<Rightarrow> (Suspended, st)
      | Rejected e \<Rightarrow> (Threw e, st)
      | Fulfilled response \<Rightarrow>
         (case json response of
            Pending \<Rightarrow> (Suspended, st)
          | Rejected e \<Rightarrow> (Threw e, st)
          | Fulfilled data \<Rightarrow> startNewGame_data_part000 pf data st))"

definition startNewGame_part000 :: "platform \<Rightarrow> http_response promise \<Rightarrow> session \<Rightarrow> session run" where
  "startNewGame_part000 pf fetched st =
     (let st = st\<lparr>loading := True\<rparr>;
          st = st\<lparr>error := JNull\<rparr>;
          st = st\<lparr>winner := JNull\<rparr>;
          st = st\<lparr>gameStatus := JStr ''in_progress''\<rparr>;
          req = agent_request ''new game''
      in catch_finally [req] (startNewGame_try_part000 pf fetched st))"

definition initial_session_part000 :: session where
  "initial_session_part000 =
     \<lparr>gameState = JNull, gameStatus = JStr ''in_progress'', winner = JNull, loading = False,
      message = JStr ''Starting new game...'', error = JNull\<rparr>"

definition handlePlayAgain_part000 :: "platform \<Rightarrow> http_response promise \<Rightarrow> session \<Rightarrow> session run" where
  "handlePlayAgain_part000 pf fetched st =
     (let st = st\<lparr>winner := JNull\<rparr>
      in startNewGame_part000 pf fetched st)"

section \<open>The view: Cell, GameBoard and the controls of TicTacToe\<close>

text \<open>
  Both revisions have the same \<open>Cell\<close> and \<open>GameBoard\<close>. Of the button a \<open>Cell\<close>
  renders, the text and the \<open>disabled\<close> attribute are kept; a disabled button
  does not run its \<open>onClick\<close>.
\<close>

record button =
  cell_position :: nat
  displayValue :: string
  disabled :: bool

definition Cell :: "nat \<Rightarrow> jsval \<Rightarrow> bool \<Rightarrow> button" where
  "Cell position cell_value isAvailable =
     \<lparr>cell_position = position,
      displayValue =
        (if cell_value = JStr ''X'' then ''X''
         else if cell_value = JStr ''O'' then ''O''
         else []),
      disabled = (\<not> isAvailable)\<rparr>"

text \<open>\<open>s.includes(t)\<close> on strings: \<open>t\<close> occurs in \<open>s\<close>.\<close>

fun includes_str :: "string \<Rightarrow> string \<Rightarrow> bool" where
  "includes_str [] t = (t = [])"
| "includes_str (c # cs) t = (take (length t) (c # cs) = t \<or> includes_str cs t)"

text \<open>
  \<open>availableMoves.includes(position)\<close>: membership in an array, a substring test of the
  digits on a string, a TypeError on anything else, which has no \<open>includes\<close>.
\<close>

definition js_includes :: "platform \<Rightarrow> jsval \<Rightarrow> nat \<Rightarrow> thrown + bool" where
  "js_includes pf availableMoves position =
     (case availableMoves of
        JArr ms \<Rightarrow> Inr (JNum (int position) \<in> set ms)
      | JStr s \<Rightarrow> Inr (includes_str s (string_of_nat position))
      | _ \<Rightarrow> Inl (ErrorObj (not_function_message pf ''availableMoves.includes'')))"

text \<open>The callback of \<open>board.map\<close>, cell by cell from \<open>index\<close> on.\<close>

fun GameBoard_cells :: "platform \<Rightarrow> jsval \<Rightarrow> bool \<Rightarrow> nat \<Rightarrow> jsval list \<Rightarrow> thrown + button list" where
  "GameBoard_cells pf availableMoves isLoading index [] = Inr []"
| "GameBoard_cells pf availableMoves isLoading index (cell # rest) =
     (let position = index + 1 in
      case js_includes pf availableMoves position of
        Inl e \<Rightarrow> Inl e
      | Inr inc \<Rightarrow>
         (case GameBoard_cells pf availableMoves isLoading (index + 1) rest of
            Inl e \<Rightarrow> Inl e
          | Inr buttons \<Rightarrow> Inr (Cell position cell (inc \<and> \<not> isLoading) # buttons)))"

text \<open>\<open>GameBoard\<close>: the buttons it renders, or the TypeError its rendering throws.\<close>

definition GameBoard :: "platform \<Rightarrow> jsval \<Rightarrow> bool \<Rightarrow> thrown + button list" where
  "GameBoard pf gameState_prop isLoading =
     (let board = js_or (getprop_opt gameState_prop ''board'')
                    (JArr (map JNum [1, 2, 3, 4, 5, 6, 7, 8, 9]));
          availableMoves = js_or (getprop_opt gameState_prop ''available_moves'') (JArr [])
      in case board of
           JArr cells \<Rightarrow> GameBoard_cells pf availableMoves isLoading 0 cells
         | _ \<Rightarrow> Inl (ErrorObj (not_function_message pf ''board.map'')))"

text \<open>
  \<open>TicTacToe\<close> renders the board only when \<open>!loading && gameState\<close>, the New Game
  button with \<open>disabled={loading}\<close>, and the winner dialog when \<open>winner\<close> is truthy
  (in \<open>src/app/page.tsx\<close> it is open when \<open>showWinnerModal\<close> is set).
\<close>

definition TicTacToe_board :: "platform \<Rightarrow> 'a session_scheme \<Rightarrow> (thrown + button list) option" where
  "TicTacToe_board pf st =
     (if \<not> loading st \<and> truthy (gameState st)
      then Some (GameBoard pf (gameState st) (loading st))
      else None)"

definition NewGame_disabled :: "'a session_scheme \<Rightarrow> bool" where
  "NewGame_disabled st = loading st"

definition click_NewGame :: "platform \<Rightarrow> http_response promise \<Rightarrow> page_session \<Rightarrow> page_session run" where
  "click_NewGame pf fetched st =
     (if NewGame_disabled st then \<lparr>final = st, sent = [], ended = Normal\<rparr>
      else startNewGame pf fetched st)"

definition click_NewGame_part000 :: "platform \<Rightarrow> http_response promise \<Rightarrow> session \<Rightarrow> session run" where
  "click_NewGame_part000 pf fetched st =
     (if NewGame_disabled st then \<lparr>final = st, sent = [], ended = Normal\<rparr>
      else startNewGame_part000 pf fetched st)"

definition WinnerModal_open :: "page_session \<Rightarrow> bool" where
  "WinnerModal_open st = (truthy (winner st) \<and> showWinnerModal st)"

definition WinnerModal_open_part000 :: "session \<Rightarrow> bool" where
  "WinnerModal_open_part000 st = truthy (winner st)"

section \<open>Notions the properties are stated with\<close>

definition nullish :: "jsval \<Rightarrow> bool" where
  "nullish v = (v = JUndefined \<or> v = JNull)"

definition nonempty_string :: "jsval \<Rightarrow> bool" where
  "nonempty_string v = (case v of JStr s \<Rightarrow> s \<noteq> [] | _ \<Rightarrow> False)"

text \<open>
  The two envelopes that signal success: a truthy \<open>success\<close> with a truthy
  \<open>response\<close>, and \<open>status\<close> equal to \<open>"success"\<close> with a truthy \<open>response\<close>.
\<close>

definition envelope_success_flag :: "jsval \<Rightarrow> bool" where
  "envelope_success_flag data =
     (truthy (getprop_opt data ''success'') \<and> truthy (getprop_opt data ''response''))"

definition envelope_status_success :: "jsval \<Rightarrow> bool" where
  "envelope_status_success data =
     (getprop_opt data ''status'' = JStr ''success'' \<and> truthy (getprop_opt data ''response''))"

text \<open>
  The game payload of an envelope as \<open>src/app/page.tsx\<close> obtains it: \<open>response\<close>,
  decoded by \<open>JSON.parse\<close> when it is a string.
\<close>

definition page_payload :: "platform \<Rightarrow> jsval \<Rightarrow> thrown + jsval" where
  "page_payload pf data =
     (case getprop_opt data ''response'' of
        JStr s \<Rightarrow> (case JSON_parse pf s of Inl m \<Rightarrow> Inl (ErrorObj m) | Inr v \<Rightarrow> Inr v)
      | _ \<Rightarrow> Inr (getprop_opt data ''response''))"

text \<open>Both awaited promises settle: the request is answered and its body is read.\<close>

definition settled :: "http_response promise \<Rightarrow> bool" where
  "settled fetched =
     (case fetched of
        Pending \<Rightarrow> False
      | Rejected e \<Rightarrow> True
      | Fulfilled r \<Rightarrow> (case json r of Pending \<Rightarrow> False | _ \<Rightarrow> True))"

text \<open>
  The answers \<open>src/app/page.tsx\<close> treats as failures: the transport rejects, the
  status is not OK, the body is not JSON, the envelope does not signal success, the
  string \<open>response\<close> is not JSON, or the payload is \<open>null\<close>.
\<close>

definition page_failure :: "platform \<Rightarrow> http_response promise \<Rightarrow> bool" where
  "page_failure pf fetched =
     (case fetched of
        Pending \<Rightarrow> False
      | Rejected e \<Rightarrow> True
      | Fulfilled r \<Rightarrow>
         \<not> ok r \<or>
         (case json r of
            Pending \<Rightarrow> False
          | Rejected e \<Rightarrow> True
          | Fulfilled data \<Rightarrow>
             \<not> envelope_success_flag data \<or>
             (case page_payload pf data of Inl e \<Rightarrow> True | Inr g \<Rightarrow> nullish g)))"

text \<open>
  The answers the unnamed revision treats as failures: the transport rejects, the
  body is not JSON, or the envelope does not signal success.
\<close>

definition part000_failure :: "http_response promise \<Rightarrow> bool" where
  "part000_failure fetched =
     (case fetched of
        Pending \<Rightarrow> False
      | Rejected e \<Rightarrow> True
      | Fulfilled r \<Rightarrow>
         (case json r of
            Pending \<Rightarrow> False
          | Rejected e \<Rightarrow> True
          | Fulfilled data \<Rightarrow> \<not> envelope_status_success data))"

text \<open>A value that is a string whenever it is truthy.\<close>

definition string_or_falsy :: "jsval \<Rightarrow> bool" where
  "string_or_falsy v = (case v of JStr s \<Rightarrow> True | _ \<Rightarrow> \<not> truthy v)"

text \<open>
  Every message the engine and the transport can hand to the \<open>catch\<close> clause is
  non-empty, and the \<open>error\<close> field of the envelope is a string when it is truthy.
\<close>

definition messages_nonempty :: "platform \<Rightarrow> http_response promise \<Rightarrow> bool" where
  "messages_nonempty pf fetched =
     ((\<forall>v k. nullish_read_message pf v k \<noteq> []) \<and>
      (\<forall>s m. JSON_parse pf s = Inl m \<longrightarrow> m \<noteq> []) \<and>
      (case fetched of
         Pending \<Rightarrow> True
       | Rejected e \<Rightarrow> errorMsg e \<noteq> []
       | Fulfilled r \<Rightarrow>
          (case json r of
             Pending \<Rightarrow> True
           | Rejected e \<Rightarrow> errorMsg e \<noteq> []
           | Fulfilled data \<Rightarrow> string_or_falsy (getprop_opt data ''error''))))"

text \<open>
  The button \<open>GameBoard\<close> renders for position \<open>p\<close>, if it renders one; whether it
  can be clicked, and whether it shows a mark.
\<close>

definition cell_at :: "platform \<Rightarrow> jsval \<Rightarrow> bool \<Rightarrow> nat \<Rightarrow> button option" where
  "cell_at pf gs isLoading p =
     (case GameBoard pf gs isLoading of
        Inl e \<Rightarrow> None
      | Inr buttons \<Rightarrow>
         if 1 \<le> p \<and> p \<le> length buttons then Some (buttons ! (p - 1)) else None)"

definition clickable :: "platform \<Rightarrow> jsval \<Rightarrow> bool \<Rightarrow> nat \<Rightarrow> bool" where
  "clickable pf gs isLoading p =
     (case cell_at pf gs isLoading p of None \<Rightarrow> False | Some b \<Rightarrow> \<not> disabled b)"

definition shows_mark :: "platform \<Rightarrow> jsval \<Rightarrow> bool \<Rightarrow> nat \<Rightarrow> bool" where
  "shows_mark pf gs isLoading p =
     (case cell_at pf gs isLoading p of None \<Rightarrow> False | Some b \<Rightarrow> displayValue b \<noteq> [])"

section \<open>Example inputs\<close>

text \<open>
  A platform whose \<open>JSON.parse\<close> knows two texts (the payload's and \<open>null\<close>), a
  payload in which X has taken the centre, its JSON text, and sessions and answers
  built from them.
\<close>

definition example_game_state :: jsval where
  "example_game_state =
     JObj [(''board'', JArr [JNum 1, JNum 2, JNum 3, JNum 4, JStr ''X'', JNum 6, JNum 7, JNum 8, JNum 9]),
           (''available_moves'', JArr [JNum 1, JNum 2, JNum 3, JNum 4, JNum 6, JNum 7, JNum 8, JNum 9])]"

definition example_payload :: jsval where
  "example_payload =
     JObj [(''game_state'', example_game_state),
           (''game_status'', JStr ''in_progress''),
           (''winner'', JStr ''none''),
           (''message'', JStr ''Your move'')]"

definition example_payload_text :: string where
  "example_payload_text =
     ''{\"game_state\":{\"board\":[1,2,3,4,\"X\",6,7,8,9],\"available_moves\":[1,2,3,4,6,7,8,9]},'' @
     ''\"game_status\":\"in_progress\",\"winner\":\"none\",\"message\":\"Your move\"}''"

definition example_won_payload :: jsval where
  "example_won_payload =
     JObj [(''game_state'', example_game_state),
           (''game_status'', JStr ''won''),
           (''winner'', JStr ''X''),
           (''message'', JStr ''You win'')]"

definition example_JSON_parse :: "string \<Rightarrow> string + jsval" where
  "example_JSON_parse s =
     (if s = example_payload_text then Inr example_payload
      else if s = ''null'' then Inr JNull
      else Inl ''Unexpected token'')"

definition example_nullish_read_message :: "jsval \<Rightarrow> string \<Rightarrow> string" where
  "example_nullish_read_message v k = ''Cannot read properties of null (reading '' @ k @ '')''"

definition example_not_function_message :: "string \<Rightarrow> string" where
  "example_not_function_message f = f @ '' is not a function''"

definition example_platform :: platform where
  "example_platform =
     \<lparr>JSON_parse = example_JSON_parse,
      nullish_read_message = example_nullish_read_message,
      not_function_message = example_not_function_message\<rparr>"

definition answer :: "bool \<Rightarrow> nat \<Rightarrow> jsval \<Rightarrow> http_response promise" where
  "answer is_ok code data = Fulfilled \<lparr>ok = is_ok, status = code, json = Fulfilled data\<rparr>"

text \<open>A session that shows an empty board, for either revision.\<close>

definition empty_board :: jsval where
  "empty_board =
     JObj [(''board'', JArr (map JNum [1, 2, 3, 4, 5, 6, 7, 8, 9])),
           (''available_moves'', JArr (map JNum [1, 2, 3, 4, 5, 6, 7, 8, 9]))]"

definition example_session :: page_session where
  "example_session =
     \<lparr>gameState = empty_board, gameStatus = JStr ''in_progress'', winner = JNull,
      loading = False, message = JStr ''Your move'', error = JNull, showWinnerModal = False\<rparr>"

definition example_session_part000 :: session where
  "example_session_part000 =
     \<lparr>gameState = empty_board, gameStatus = JStr ''in_progress'', winner = JNull,
      loading = False, message = JStr ''Your move'', error = JNull\<rparr>"

text \<open>Envelopes of the two variants around the payload, and a failure envelope.\<close>

definition example_envelope :: jsval where
  "example_envelope = JObj [(''success'', JBool True), (''response'', example_payload)]"

definition example_envelope_encoded :: jsval where
  "example_envelope_encoded =
     JObj [(''success'', JBool True), (''response'', JStr example_payload_text)]"

definition example_envelope_status :: jsval where
  "example_envelope_status = JObj [(''status'', JStr ''success''), (''response'', example_payload)]"

definition example_envelope_failure :: jsval where
  "example_envelope_failure =
     JObj [(''success'', JBool False), (''status'', JStr ''error''),
           (''error'', JStr ''Agent unavailable'')]"

definition example_envelope_status_encoded :: jsval where
  "example_envelope_status_encoded =
     JObj [(''status'', JStr ''success''), (''response'', JStr example_payload_text)]"

definition example_envelope_won :: jsval where
  "example_envelope_won = JObj [(''success'', JBool True), (''response'', example_won_payload)]"

definition example_envelope_won_status :: jsval where
  "example_envelope_won_status =
     JObj [(''status'', JStr ''success''), (''response'', example_won_payload)]"

definition example_envelope_broken :: jsval where
  "example_envelope_broken = JObj [(''success'', JBool True), (''response'', JStr ''{bad'')]"

definition example_envelope_status_broken :: jsval where
  "example_envelope_status_broken =
     JObj [(''status'', JStr ''success''), (''response'', JStr ''{bad'')]"

text \<open>A board with X in the centre whose \<open>available_moves\<close> still lists the centre.\<close>

definition example_marked_available :: jsval where
  "example_marked_available =
     JObj [(''board'', JArr [JNum 1, JNum 2, JNum 3, JNum 4, JStr ''X'', JNum 6, JNum 7, JNum 8, JNum 9]),
           (''available_moves'', JArr (map JNum [1, 2, 3, 4, 5, 6, 7, 8, 9]))]"

text \<open>A drawn game whose payload names no winner, in an envelope of each variant.\<close>

definition example_draw_payload :: jsval where
  "example_draw_payload =
     JObj [(''game_state'', example_game_state),
           (''game_status'', JStr ''draw''),
           (''winner'', JStr []),
           (''message'', JStr ''Draw'')]"

definition example_envelope_draw :: jsval where
  "example_envelope_draw = JObj [(''success'', JBool True), (''response'', example_draw_payload)]"

definition example_envelope_draw_status :: jsval where
  "example_envelope_draw_status =
     JObj [(''status'', JStr ''success''), (''response'', example_draw_payload)]"

section \<open>The operations in flat form\<close>

lemma getprop_nullish:
  "nullish v \<Longrightarrow> getprop pf v k = Inl (ErrorObj (nullish_read_message pf v k))"
  by (auto simp: nullish_def getprop_def)

lemma getprop_value: "\<not> nullish v \<Longrightarrow> getprop pf v k = Inr (getprop_opt v k)"
  by (cases v) (simp_all add: nullish_def getprop_def getprop_opt_def)

lemma truthy_not_nullish: "truthy v \<Longrightarrow> \<not> nullish v"
  by (auto simp: nullish_def)

lemma getprop_opt_nullish: "nullish v \<Longrightarrow> getprop_opt v k = JUndefined"
  by (auto simp: nullish_def getprop_opt_def)

lemma js_or_default_not_null: "truthy d \<Longrightarrow> js_or v d \<noteq> JNull"
  by (auto simp: js_or_def)

lemma makeMove_apply_flat:
  "makeMove_apply pf g st =
     (if nullish g then (Threw (ErrorObj (nullish_read_message pf g ''game_state'')), st)
      else if getprop_opt g ''game_status'' = JStr ''won'' \<or>
              getprop_opt g ''game_status'' = JStr ''draw''
      then (Normal, st\<lparr>gameState := getprop_opt g ''game_state'',
                        gameStatus := getprop_opt g ''game_status'',
                        message := getprop_opt g ''message'',
                        winner := getprop_opt g ''winner'',
                        showWinnerModal := True\<rparr>)
      else (Normal, st\<lparr>gameState := getprop_opt g ''game_state'',
                        gameStatus := getprop_opt g ''game_status'',
                        message := getprop_opt g ''message''\<rparr>))"
  by (cases "nullish g")
     (simp_all add: makeMove_apply_def getprop_value getprop_nullish Let_def)

lemma startNewGame_apply_flat:
  "startNewGame_apply pf g st =
     (if nullish g then (Threw (ErrorObj (nullish_read_message pf g ''game_state'')), st)
      else (Normal, st\<lparr>gameState := getprop_opt g ''game_state'',
                        gameStatus := getprop_opt g ''game_status'',
                        message := getprop_opt g ''message''\<rparr>))"
  by (cases "nullish g")
     (simp_all add: startNewGame_apply_def getprop_value getprop_nullish Let_def)

lemma makeMove_apply_part000_flat:
  "makeMove_apply_part000 pf g st =
     (if nullish g then (Threw (ErrorObj (nullish_read_message pf g ''game_state'')), st)
      else if getprop_opt g ''game_status'' = JStr ''won'' \<or>
              getprop_opt g ''game_status'' = JStr ''draw''
      then (Normal, st\<lparr>gameState := getprop_opt g ''game_state'',
                        gameStatus := getprop_opt g ''game_status'',
                        message := getprop_opt g ''message'',
                        winner := getprop_opt g ''winner''\<rparr>)
      else (Normal, st\<lparr>gameState := getprop_opt g ''game_state'',
                        gameStatus := getprop_opt g ''game_status'',
                        message := getprop_opt g ''message''\<rparr>))"
  by (cases "nullish g")
     (simp_all add: makeMove_apply_part000_def getprop_value getprop_nullish Let_def)

lemma startNewGame_apply_part000_flat:
  "startNewGame_apply_part000 pf g st =
     (if nullish g then (Threw (ErrorObj (nullish_read_message pf g ''game_state'')), st)
      else (Normal, st\<lparr>gameState := getprop_opt g ''game_state'',
                        gameStatus := getprop_opt g ''game_status'',
                        message := getprop_opt g ''message''\<rparr>))"
  by (cases "nullish g")
     (simp_all add: startNewGame_apply_part000_def getprop_value getprop_nullish Let_def)

lemma makeMove_success_flat:
  "\<not> nullish data \<Longrightarrow>
   makeMove_success pf data st =
     (case page_payload pf data of
        Inl e \<Rightarrow> (Threw e, st)
      | Inr g \<Rightarrow> makeMove_apply pf g st)"
  by (simp add: makeMove_success_def page_payload_def getprop_value)

lemma startNewGame_success_flat:
  "\<not> nullish data \<Longrightarrow>
   startNewGame_success pf data st =
     (case page_payload pf data of
        Inl e \<Rightarrow> (Threw e, st)
      | Inr g \<Rightarrow> startNewGame_apply pf g st)"
  by (simp add: startNewGame_success_def page_payload_def getprop_value)

lemma makeMove_data_flat:
  "makeMove_data pf data st =
     (if nullish data then (Threw (ErrorObj (nullish_read_message pf data ''success'')), st)
      else if envelope_success_flag data then
        (case page_payload pf data of
           Inl e \<Rightarrow> (Threw e, st)
         | Inr g \<Rightarrow> makeMove_apply pf g st)
      else (Normal, st\<lparr>error := js_or (getprop_opt data ''error'') (JStr ''Failed to process move'')\<rparr>))"
  by (cases "nullish data")
     (simp_all add: makeMove_data_def envelope_success_flag_def getprop_value getprop_nullish
        makeMove_success_flat)

lemma startNewGame_data_flat:
  "startNewGame_data pf data st =
     (if nullish data then (Threw (ErrorObj (nullish_read_message pf data ''success'')), st)
      else if envelope_success_flag data then
        (case page_payload pf data of
           Inl e \<Rightarrow> (Threw e, st)
         | Inr g \<Rightarrow> startNewGame_apply pf g st)
      else (Normal, st\<lparr>error := js_or (getprop_opt data ''error'') (JStr ''Failed to start new game'')\<rparr>))"
  by (cases "nullish data")
     (simp_all add: startNewGame_data_def envelope_success_flag_def getprop_value getprop_nullish
        startNewGame_success_flat)

lemma makeMove_data_part000_flat:
  "makeMove_data_part000 pf data st =
     (if nullish data then (Threw (ErrorObj (nullish_read_message pf data ''status'')), st)
      else if envelope_status_success data then
        makeMove_apply_part000 pf (getprop_opt data ''response'') st
      else (Normal, st\<lparr>error := JStr ''Failed to process move''\<rparr>))"
  by (cases "nullish data")
     (simp_all add: makeMove_data_part000_def makeMove_success_part000_def
        envelope_status_success_def getprop_value getprop_nullish)

lemma startNewGame_data_part000_flat:
  "startNewGame_data_part000 pf data st =
     (if nullish data then (Threw (ErrorObj (nullish_read_message pf data ''status'')), st)
      else if envelope_status_success data then
        startNewGame_apply_part000 pf (getprop_opt data ''response'') st
      else (Normal, st\<lparr>error := JStr ''Failed to start new game''\<rparr>))"
  by (cases "nullish data")
     (simp_all add: startNewGame_data_part000_def startNewGame_success_part000_def
        envelope_status_success_def getprop_value getprop_nullish)

lemmas page_flat = makeMove_def startNewGame_def makeMove_try_def startNewGame_try_def
  makeMove_data_flat startNewGame_data_flat makeMove_apply_flat startNewGame_apply_flat
  catch_finally_def Let_def

lemmas part000_flat = makeMove_part000_def startNewGame_part000_def makeMove_try_part000_def
  startNewGame_try_part000_def makeMove_data_part000_flat startNewGame_data_part000_flat
  makeMove_apply_part000_flat startNewGame_apply_part000_flat catch_finally_def Let_def

lemmas example_defs = example_platform_def example_JSON_parse_def example_nullish_read_message_def
  example_not_function_message_def example_session_def example_session_part000_def
  example_payload_def example_payload_text_def example_won_payload_def example_game_state_def
  empty_board_def answer_def example_envelope_def example_envelope_encoded_def
  example_envelope_status_def example_envelope_failure_def example_envelope_status_encoded_def
  example_envelope_won_def example_envelope_won_status_def example_envelope_broken_def
  example_envelope_status_broken_def

section \<open>The loading guard of makeMove\<close>

text \<open>
  C3. For every position, \<open>makeMove\<close> called while \<open>loading\<close> is true has no effect:
  it sends no request and returns the session as it was, field for field. This holds
  in both revisions.
\<close>

theorem makeMove_while_loading:
  "(loading st \<longrightarrow> makeMove pf fetched p st = \<lparr>final = st, sent = [], ended = Normal\<rparr>) \<and>
   (loading st_u \<longrightarrow>
      makeMove_part000 pf fetched p st_u = \<lparr>final = st_u, sent = [], ended = Normal\<rparr>)"
  by (simp add: makeMove_def makeMove_part000_def)

theorem makeMove_while_loading_witness:
  "loading (example_session\<lparr>loading := True\<rparr>) \<and>
   makeMove example_platform (answer True 200 JNull) 5 (example_session\<lparr>loading := True\<rparr>)
     = \<lparr>final = example_session\<lparr>loading := True\<rparr>, sent = [], ended = Normal\<rparr> \<and>
   loading (example_session_part000\<lparr>loading := True\<rparr>) \<and>
   makeMove_part000 example_platform (answer True 200 JNull) 5
       (example_session_part000\<lparr>loading := True\<rparr>)
     = \<lparr>final = example_session_part000\<lparr>loading := True\<rparr>, sent = [], ended = Normal\<rparr>"
  using makeMove_while_loading [of "example_session\<lparr>loading := True\<rparr>" example_platform
      "answer True 200 JNull" 5 "example_session_part000\<lparr>loading := True\<rparr>"]
  by simp

section \<open>Release of the loading flag\<close>

lemma page_try_suspended:
  "fst (makeMove_try pf f st) = Suspended \<Longrightarrow> \<not> settled f"
  "fst (startNewGame_try pf f st) = Suspended \<Longrightarrow> \<not> settled f"
  by (auto simp: makeMove_try_def startNewGame_try_def makeMove_data_flat startNewGame_data_flat
      makeMove_apply_flat startNewGame_apply_flat settled_def
      split: promise.splits sum.splits if_splits)

lemma part000_try_suspended:
  "fst (makeMove_try_part000 pf f st_u) = Suspended \<Longrightarrow> \<not> settled f"
  "fst (startNewGame_try_part000 pf f st_u) = Suspended \<Longrightarrow> \<not> settled f"
  by (auto simp: makeMove_try_part000_def startNewGame_try_part000_def makeMove_data_part000_flat
      startNewGame_data_part000_flat makeMove_apply_part000_flat startNewGame_apply_part000_flat
      settled_def split: promise.splits sum.splits if_splits)

lemma catch_finally_ended:
  "ended (catch_finally reqs r) = (if fst r = Suspended then Suspended else Normal)"
  by (cases r; cases "fst r") (simp_all add: catch_finally_def Let_def)

lemma catch_finally_loading:
  "fst r \<noteq> Suspended \<Longrightarrow> \<not> loading (final (catch_finally reqs r))"
  by (cases r; cases "fst r") (simp_all add: catch_finally_def Let_def)

lemma catch_finally_sent: "sent (catch_finally reqs r) = reqs"
  by (cases r; cases "fst r") (simp_all add: catch_finally_def Let_def)

text \<open>
  C5. Whenever \<open>startNewGame\<close> or a \<open>makeMove\<close> that passed its guard returns
  (success, envelope failure, parse failure or network failure alike), \<open>loading\<close> is
  false in the session it leaves; and it does return as soon as the request and the
  reading of its body settle. This holds in both revisions.
\<close>

theorem loading_released:
  "(ended (startNewGame pf f st) = Normal \<longrightarrow> \<not> loading (final (startNewGame pf f st))) \<and>
   (\<not> loading st \<and> ended (makeMove pf f p st) = Normal \<longrightarrow>
      \<not> loading (final (makeMove pf f p st))) \<and>
   (settled f \<longrightarrow> ended (startNewGame pf f st) = Normal \<and> ended (makeMove pf f p st) = Normal) \<and>
   (ended (startNewGame_part000 pf f st_u) = Normal \<longrightarrow>
      \<not> loading (final (startNewGame_part000 pf f st_u))) \<and>
   (\<not> loading st_u \<and> ended (makeMove_part000 pf f p st_u) = Normal \<longrightarrow>
      \<not> loading (final (makeMove_part000 pf f p st_u))) \<and>
   (settled f \<longrightarrow> ended (startNewGame_part000 pf f st_u) = Normal \<and>
      ended (makeMove_part000 pf f p st_u) = Normal)"
proof -
  have a: "ended (startNewGame pf f st) = Normal \<longrightarrow> \<not> loading (final (startNewGame pf f st))"
    by (auto simp: startNewGame_def Let_def catch_finally_ended catch_finally_loading
        split: if_splits)
  have b: "\<not> loading st \<and> ended (makeMove pf f p st) = Normal \<longrightarrow>
      \<not> loading (final (makeMove pf f p st))"
    by (auto simp: makeMove_def Let_def catch_finally_ended catch_finally_loading
        split: if_splits)
  have c: "settled f \<longrightarrow> ended (startNewGame pf f st) = Normal \<and> ended (makeMove pf f p st) = Normal"
    using page_try_suspended
    by (auto simp: startNewGame_def makeMove_def Let_def catch_finally_ended)
  have d: "ended (startNewGame_part000 pf f st_u) = Normal \<longrightarrow>
      \<not> loading (final (startNewGame_part000 pf f st_u))"
    by (auto simp: startNewGame_part000_def Let_def catch_finally_ended catch_finally_loading
        split: if_splits)
  have e: "\<not> loading st_u \<and> ended (makeMove_part000 pf f p st_u) = Normal \<longrightarrow>
      \<not> loading (final (makeMove_part000 pf f p st_u))"
    by (auto simp: makeMove_part000_def Let_def catch_finally_ended catch_finally_loading
        split: if_splits)
  have g: "settled f \<longrightarrow> ended (startNewGame_part000 pf f st_u) = Normal \<and>
      ended (makeMove_part000 pf f p st_u) = Normal"
    using part000_try_suspended
    by (auto simp: startNewGame_part000_def makeMove_part000_def Let_def catch_finally_ended)
  from a b c d e g show ?thesis by blast
qed

theorem loading_released_witness:
  "settled (answer True 200 example_envelope_failure) \<and>
   \<not> loading example_session \<and>
   ended (makeMove example_platform (answer True 200 example_envelope_failure) 5 example_session)
     = Normal \<and>
   \<not> loading (final (makeMove example_platform (answer True 200 example_envelope_failure) 5
                        example_session)) \<and>
   ended (startNewGame example_platform (answer True 200 example_envelope_failure) example_session)
     = Normal \<and>
   \<not> loading (final (startNewGame example_platform (answer True 200 example_envelope_failure)
                        example_session)) \<and>
   \<not> loading example_session_part000 \<and>
   ended (makeMove_part000 example_platform (answer True 200 example_envelope_failure) 5
            example_session_part000) = Normal \<and>
   \<not> loading (final (makeMove_part000 example_platform (answer True 200 example_envelope_failure) 5
                        example_session_part000)) \<and>
   ended (startNewGame_part000 example_platform (answer True 200 example_envelope_failure)
            example_session_part000) = Normal \<and>
   \<not> loading (final (startNewGame_part000 example_platform
                        (answer True 200 example_envelope_failure) example_session_part000))"
proof -
  have s: "settled (answer True 200 example_envelope_failure)"
    by (simp add: settled_def answer_def)
  have l: "\<not> loading example_session" "\<not> loading example_session_part000"
    by (simp_all add: example_session_def example_session_part000_def)
  show ?thesis
    using s l loading_released [of example_platform "answer True 200 example_envelope_failure"
        example_session 5 example_session_part000]
    by simp
qed

section \<open>A failed startNewGame\<close>

lemma startNewGame_failed:
  "page_failure pf f \<Longrightarrow>
   ended (startNewGame pf f st) = Normal \<and> error (final (startNewGame pf f st)) \<noteq> JNull"
  by (auto simp: page_failure_def page_flat js_or_def
      split: promise.splits sum.splits if_splits)

lemma startNewGame_part000_failed:
  "part000_failure f \<Longrightarrow>
   ended (startNewGame_part000 pf f st_u) = Normal \<and>
   error (final (startNewGame_part000 pf f st_u)) \<noteq> JNull"
  by (auto simp: part000_failure_def part000_flat
      split: promise.splits sum.splits if_splits)

lemma startNewGame_error_frame:
  "ended (startNewGame pf f st) = Normal \<Longrightarrow>
   error (final (startNewGame pf f st)) \<noteq> JNull \<Longrightarrow>
   final (startNewGame pf f st) =
     st\<lparr>loading := False, error := error (final (startNewGame pf f st)),
        winner := JNull, showWinnerModal := False, gameStatus := JStr ''in_progress''\<rparr>"
  by (auto simp: page_flat split: promise.splits sum.splits if_splits)

lemma startNewGame_part000_error_frame:
  "ended (startNewGame_part000 pf f st_u) = Normal \<Longrightarrow>
   error (final (startNewGame_part000 pf f st_u)) \<noteq> JNull \<Longrightarrow>
   final (startNewGame_part000 pf f st_u) =
     st_u\<lparr>loading := False, error := error (final (startNewGame_part000 pf f st_u)),
         winner := JNull, gameStatus := JStr ''in_progress''\<rparr>"
  by (auto simp: part000_flat split: promise.splits sum.splits if_splits)

text \<open>
  C10, as the specification states it, fails in the unnamed revision for two of the
  failures it names. A string \<open>response\<close> that is not JSON, inside an envelope whose
  \<open>status\<close> is \<open>"success"\<close>, and an answer whose HTTP status is not OK and whose body
  signals success are both handled as successes there: \<open>startNewGame\<close> leaves \<open>error\<close>
  null and overwrites \<open>gameStatus\<close> and \<open>gameState\<close> from what it takes as the
  payload, so neither the reset of \<open>gameStatus\<close> nor the board is kept.
\<close>

theorem part000_startNewGame_overwrites_reset:
  "JSON_parse example_platform ''{bad'' = Inl ''Unexpected token'' \<and>
   gameState example_session_part000 = empty_board \<and>
   error (final (startNewGame_part000 example_platform
                   (answer True 200 example_envelope_status_broken)
                   example_session_part000)) = JNull \<and>
   gameStatus (final (startNewGame_part000 example_platform
                        (answer True 200 example_envelope_status_broken)
                        example_session_part000)) = JUndefined \<and>
   gameState (final (startNewGame_part000 example_platform
                       (answer True 200 example_envelope_status_broken)
                       example_session_part000)) = JUndefined \<and>
   error (final (startNewGame_part000 example_platform
                   (answer False 500 example_envelope_won_status)
                   example_session_part000)) = JNull \<and>
   gameStatus (final (startNewGame_part000 example_platform
                        (answer False 500 example_envelope_won_status)
                        example_session_part000)) = JStr ''won'' \<and>
   gameState (final (startNewGame_part000 example_platform
                       (answer False 500 example_envelope_won_status)
                       example_session_part000)) = example_game_state \<and>
   example_game_state \<noteq> empty_board"
  by (simp add: example_defs part000_flat envelope_status_success_def getprop_opt_def nullish_def)

text \<open>
  C10, amended. \<open>startNewGame\<close> clears \<open>winner\<close> and resets \<open>gameStatus\<close> before its
  request is answered (the session it leaves while the request is pending shows
  both), and a failed \<open>startNewGame\<close>, one that returns with \<open>error\<close> set, leaves
  \<open>winner\<close> null and \<open>gameStatus\<close> \<open>"in_progress"\<close> whatever they were, with
  \<open>gameState\<close> as before. The failed calls are those on a failure the revision
  detects. \<open>src/app/page.tsx\<close> detects a rejected request, a status that is not OK, a
  body that is not JSON, an envelope that does not signal success, and a string
  \<open>response\<close> that is not JSON or decodes to \<open>null\<close>. The unnamed revision detects a
  rejected request, a body that is not JSON and an envelope that does not signal
  success; it reads neither the HTTP status nor a string \<open>response\<close>, and on those
  two it runs its success path.
\<close>

theorem startNewGame_failure_keeps_resets:
  "final (startNewGame pf Pending st) =
     st\<lparr>loading := True, error := JNull, winner := JNull, showWinnerModal := False,
        gameStatus := JStr ''in_progress''\<rparr> \<and>
   (ended (startNewGame pf f st) = Normal \<and> error (final (startNewGame pf f st)) \<noteq> JNull \<longrightarrow>
      winner (final (startNewGame pf f st)) = JNull \<and>
      gameStatus (final (startNewGame pf f st)) = JStr ''in_progress'' \<and>
      gameState (final (startNewGame pf f st)) = gameState st) \<and>
   (page_failure pf f \<longrightarrow>
      ended (startNewGame pf f st) = Normal \<and> error (final (startNewGame pf f st)) \<noteq> JNull) \<and>
   final (startNewGame_part000 pf Pending st_u) =
     st_u\<lparr>loading := True, error := JNull, winner := JNull,
         gameStatus := JStr ''in_progress''\<rparr> \<and>
   (ended (startNewGame_part000 pf f st_u) = Normal \<and>
    error (final (startNewGame_part000 pf f st_u)) \<noteq> JNull \<longrightarrow>
      winner (final (startNewGame_part000 pf f st_u)) = JNull \<and>
      gameStatus (final (startNewGame_part000 pf f st_u)) = JStr ''in_progress'' \<and>
      gameState (final (startNewGame_part000 pf f st_u)) = gameState st_u) \<and>
   (part000_failure f \<longrightarrow>
      ended (startNewGame_part000 pf f st_u) = Normal \<and>
      error (final (startNewGame_part000 pf f st_u)) \<noteq> JNull)"
proof -
  have a: "final (startNewGame pf Pending st) =
     st\<lparr>loading := True, error := JNull, winner := JNull, showWinnerModal := False,
        gameStatus := JStr ''in_progress''\<rparr>"
    by (simp add: page_flat)
  have b: "final (startNewGame_part000 pf Pending st_u) =
     st_u\<lparr>loading := True, error := JNull, winner := JNull,
         gameStatus := JStr ''in_progress''\<rparr>"
    by (simp add: part000_flat)
  have c: "ended (startNewGame pf f st) = Normal \<and> error (final (startNewGame pf f st)) \<noteq> JNull \<longrightarrow>
      winner (final (startNewGame pf f st)) = JNull \<and>
      gameStatus (final (startNewGame pf f st)) = JStr ''in_progress'' \<and>
      gameState (final (startNewGame pf f st)) = gameState st"
  proof (intro impI, elim conjE)
    assume h: "ended (startNewGame pf f st) = Normal" "error (final (startNewGame pf f st)) \<noteq> JNull"
    show "winner (final (startNewGame pf f st)) = JNull \<and>
      gameStatus (final (startNewGame pf f st)) = JStr ''in_progress'' \<and>
      gameState (final (startNewGame pf f st)) = gameState st"
      by (subst startNewGame_error_frame [OF h], subst startNewGame_error_frame [OF h],
          subst startNewGame_error_frame [OF h], simp)
  qed
  have d: "ended (startNewGame_part000 pf f st_u) = Normal \<and>
    error (final (startNewGame_part000 pf f st_u)) \<noteq> JNull \<longrightarrow>
      winner (final (startNewGame_part000 pf f st_u)) = JNull \<and>
      gameStatus (final (startNewGame_part000 pf f st_u)) = JStr ''in_progress'' \<and>
      gameState (final (startNewGame_part000 pf f st_u)) = gameState st_u"
  proof (intro impI, elim conjE)
    assume h: "ended (startNewGame_part000 pf f st_u) = Normal"
      "error (final (startNewGame_part000 pf f st_u)) \<noteq> JNull"
    show "winner (final (startNewGame_part000 pf f st_u)) = JNull \<and>
      gameStatus (final (startNewGame_part000 pf f st_u)) = JStr ''in_progress'' \<and>
      gameState (final (startNewGame_part000 pf f st_u)) = gameState st_u"
      by (subst startNewGame_part000_error_frame [OF h],
          subst startNewGame_part000_error_frame [OF h],
          subst startNewGame_part000_error_frame [OF h], simp)
  qed
  from a b c d startNewGame_failed [of pf f st] startNewGame_part000_failed [of f pf st_u]
  show ?thesis by blast
qed

theorem startNewGame_failure_keeps_resets_witness:
  "page_failure example_platform (answer True 200 example_envelope_failure) \<and>
   part000_failure (answer True 200 example_envelope_failure) \<and>
   ended (startNewGame example_platform (answer True 200 example_envelope_failure)
            (example_session\<lparr>gameStatus := JStr ''won'', winner := JStr ''X''\<rparr>)) = Normal \<and>
   error (final (startNewGame example_platform (answer True 200 example_envelope_failure)
            (example_session\<lparr>gameStatus := JStr ''won'', winner := JStr ''X''\<rparr>))) \<noteq> JNull \<and>
   winner (final (startNewGame example_platform (answer True 200 example_envelope_failure)
            (example_session\<lparr>gameStatus := JStr ''won'', winner := JStr ''X''\<rparr>))) = JNull \<and>
   gameStatus (final (startNewGame example_platform (answer True 200 example_envelope_failure)
            (example_session\<lparr>gameStatus := JStr ''won'', winner := JStr ''X''\<rparr>)))
     = JStr ''in_progress'' \<and>
   gameState (final (startNewGame example_platform (answer True 200 example_envelope_failure)
            (example_session\<lparr>gameStatus := JStr ''won'', winner := JStr ''X''\<rparr>))) = empty_board \<and>
   ended (startNewGame_part000 example_platform (answer True 200 example_envelope_failure)
            (example_session_part000\<lparr>gameStatus := JStr ''won'', winner := JStr ''X''\<rparr>))
     = Normal \<and>
   error (final (startNewGame_part000 example_platform (answer True 200 example_envelope_failure)
            (example_session_part000\<lparr>gameStatus := JStr ''won'', winner := JStr ''X''\<rparr>)))
     \<noteq> JNull \<and>
   winner (final (startNewGame_part000 example_platform (answer True 200 example_envelope_failure)
            (example_session_part000\<lparr>gameStatus := JStr ''won'', winner := JStr ''X''\<rparr>)))
     = JNull \<and>
   gameStatus (final (startNewGame_part000 example_platform
            (answer True 200 example_envelope_failure)
            (example_session_part000\<lparr>gameStatus := JStr ''won'', winner := JStr ''X''\<rparr>)))
     = JStr ''in_progress'' \<and>
   gameState (final (startNewGame_part000 example_platform
            (answer True 200 example_envelope_failure)
            (example_session_part000\<lparr>gameStatus := JStr ''won'', winner := JStr ''X''\<rparr>)))
     = empty_board"
proof -
  have f: "page_failure example_platform (answer True 200 example_envelope_failure)"
    "part000_failure (answer True 200 example_envelope_failure)"
    by (simp_all add: page_failure_def part000_failure_def answer_def
        example_envelope_failure_def envelope_success_flag_def envelope_status_success_def
        getprop_opt_def)
  have g: "gameState (example_session\<lparr>gameStatus := JStr ''won'', winner := JStr ''X''\<rparr>)
             = empty_board"
    "gameState (example_session_part000\<lparr>gameStatus := JStr ''won'', winner := JStr ''X''\<rparr>)
             = empty_board"
    by (simp_all add: example_session_def example_session_part000_def)
  show ?thesis
    using f g startNewGame_failure_keeps_resets [of example_platform
        "example_session\<lparr>gameStatus := JStr ''won'', winner := JStr ''X''\<rparr>"
        "answer True 200 example_envelope_failure"
        "example_session_part000\<lparr>gameStatus := JStr ''won'', winner := JStr ''X''\<rparr>"]
    by simp
qed

section \<open>The winner of a finished game\<close>

text \<open>
  C8, as the specification states it, fails: setting \<open>winner\<close> does not by itself open
  the end-of-game dialog, which is rendered by \<open>winner && <WinnerModal ...>\<close>. On a
  drawn game whose payload carries the empty string as \<open>winner\<close>, both revisions set
  \<open>gameStatus\<close> to \<open>"draw"\<close> and \<open>winner\<close> to that string, and no dialog is shown.
\<close>

theorem draw_without_winner_shows_no_dialog:
  "gameStatus (final (makeMove example_platform (answer True 200 example_envelope_draw) 5
                        example_session)) = JStr ''draw'' \<and>
   winner (final (makeMove example_platform (answer True 200 example_envelope_draw) 5
                    example_session)) = JStr [] \<and>
   showWinnerModal (final (makeMove example_platform (answer True 200 example_envelope_draw) 5
                             example_session)) \<and>
   \<not> WinnerModal_open (final (makeMove example_platform (answer True 200 example_envelope_draw) 5
                                example_session)) \<and>
   gameStatus (final (makeMove_part000 example_platform
                        (answer True 200 example_envelope_draw_status) 5
                        example_session_part000)) = JStr ''draw'' \<and>
   winner (final (makeMove_part000 example_platform
                    (answer True 200 example_envelope_draw_status) 5
                    example_session_part000)) = JStr [] \<and>
   \<not> WinnerModal_open_part000 (final (makeMove_part000 example_platform
                                        (answer True 200 example_envelope_draw_status) 5
                                        example_session_part000))"
  by (simp add: example_defs example_draw_payload_def example_envelope_draw_def
      example_envelope_draw_status_def page_flat part000_flat envelope_success_flag_def
      envelope_status_success_def page_payload_def getprop_opt_def nullish_def
      WinnerModal_open_def WinnerModal_open_part000_def)

text \<open>
  C8, amended. A \<open>makeMove\<close> that succeeds stores the payload's \<open>game_status\<close>; when
  that is \<open>"won"\<close> or \<open>"draw"\<close> it sets \<open>winner\<close> to the payload's \<open>winner\<close> field (and,
  in \<open>src/app/page.tsx\<close>, \<open>showWinnerModal\<close>), and the end-of-game dialog is then shown
  exactly when that field is truthy; when it is \<open>"in_progress"\<close> the winner is left as
  it was. This holds in both revisions, each on the envelope it accepts.
\<close>

theorem makeMove_sets_winner:
  "(\<not> loading st \<and> ok r \<and> json r = Fulfilled data \<and> envelope_success_flag data \<and>
    page_payload pf data = Inr g \<and> \<not> nullish g \<longrightarrow>
      gameStatus (final (makeMove pf (Fulfilled r) p st)) = getprop_opt g ''game_status'' \<and>
      (getprop_opt g ''game_status'' = JStr ''won'' \<or>
       getprop_opt g ''game_status'' = JStr ''draw'' \<longrightarrow>
         winner (final (makeMove pf (Fulfilled r) p st)) = getprop_opt g ''winner'' \<and>
         showWinnerModal (final (makeMove pf (Fulfilled r) p st)) \<and>
         WinnerModal_open (final (makeMove pf (Fulfilled r) p st))
           = truthy (getprop_opt g ''winner'')) \<and>
      (getprop_opt g ''game_status'' = JStr ''in_progress'' \<longrightarrow>
         winner (final (makeMove pf (Fulfilled r) p st)) = winner st \<and>
         showWinnerModal (final (makeMove pf (Fulfilled r) p st)) = showWinnerModal st)) \<and>
   (\<not> loading st_u \<and> json r_u = Fulfilled data_u \<and> envelope_status_success data_u \<longrightarrow>
      gameStatus (final (makeMove_part000 pf (Fulfilled r_u) p st_u))
        = getprop_opt (getprop_opt data_u ''response'') ''game_status'' \<and>
      (getprop_opt (getprop_opt data_u ''response'') ''game_status'' = JStr ''won'' \<or>
       getprop_opt (getprop_opt data_u ''response'') ''game_status'' = JStr ''draw'' \<longrightarrow>
         winner (final (makeMove_part000 pf (Fulfilled r_u) p st_u))
           = getprop_opt (getprop_opt data_u ''response'') ''winner'' \<and>
         WinnerModal_open_part000 (final (makeMove_part000 pf (Fulfilled r_u) p st_u))
           = truthy (getprop_opt (getprop_opt data_u ''response'') ''winner'')) \<and>
      (getprop_opt (getprop_opt data_u ''response'') ''game_status'' = JStr ''in_progress'' \<longrightarrow>
         winner (final (makeMove_part000 pf (Fulfilled r_u) p st_u)) = winner st_u))"
proof -
  have page: "\<not> loading st \<and> ok r \<and> json r = Fulfilled data \<and> envelope_success_flag data \<and>
    page_payload pf data = Inr g \<and> \<not> nullish g \<longrightarrow>
      gameStatus (final (makeMove pf (Fulfilled r) p st)) = getprop_opt g ''game_status'' \<and>
      (getprop_opt g ''game_status'' = JStr ''won'' \<or>
       getprop_opt g ''game_status'' = JStr ''draw'' \<longrightarrow>
         winner (final (makeMove pf (Fulfilled r) p st)) = getprop_opt g ''winner'' \<and>
         showWinnerModal (final (makeMove pf (Fulfilled r) p st)) \<and>
         WinnerModal_open (final (makeMove pf (Fulfilled r) p st))
           = truthy (getprop_opt g ''winner'')) \<and>
      (getprop_opt g ''game_status'' = JStr ''in_progress'' \<longrightarrow>
         winner (final (makeMove pf (Fulfilled r) p st)) = winner st \<and>
         showWinnerModal (final (makeMove pf (Fulfilled r) p st)) = showWinnerModal st)"
    by (auto simp: page_flat WinnerModal_open_def dest: truthy_not_nullish
        simp: envelope_success_flag_def getprop_opt_nullish)
  have part: "\<not> loading st_u \<and> json r_u = Fulfilled data_u \<and> envelope_status_success data_u \<longrightarrow>
      gameStatus (final (makeMove_part000 pf (Fulfilled r_u) p st_u))
        = getprop_opt (getprop_opt data_u ''response'') ''game_status'' \<and>
      (getprop_opt (getprop_opt data_u ''response'') ''game_status'' = JStr ''won'' \<or>
       getprop_opt (getprop_opt data_u ''response'') ''game_status'' = JStr ''draw'' \<longrightarrow>
         winner (final (makeMove_part000 pf (Fulfilled r_u) p st_u))
           = getprop_opt (getprop_opt data_u ''response'') ''winner'' \<and>
         WinnerModal_open_part000 (final (makeMove_part000 pf (Fulfilled r_u) p st_u))
           = truthy (getprop_opt (getprop_opt data_u ''response'') ''winner'')) \<and>
      (getprop_opt (getprop_opt data_u ''response'') ''game_status'' = JStr ''in_progress'' \<longrightarrow>
         winner (final (makeMove_part000 pf (Fulfilled r_u) p st_u)) = winner st_u)"
    by (auto simp: part000_flat WinnerModal_open_part000_def envelope_status_success_def
        getprop_opt_nullish dest: truthy_not_nullish)
  from page part show ?thesis by blast
qed

theorem makeMove_sets_winner_witness:
  "winner (final (makeMove example_platform (answer True 200 example_envelope_won) 5
                    example_session)) = JStr ''X'' \<and>
   WinnerModal_open (final (makeMove example_platform (answer True 200 example_envelope_won) 5
                    example_session)) \<and>
   winner (final (makeMove example_platform (answer True 200 example_envelope) 5
                    example_session)) = JNull \<and>
   winner (final (makeMove_part000 example_platform (answer True 200 example_envelope_won_status)
                    5 example_session_part000)) = JStr ''X'' \<and>
   WinnerModal_open_part000 (final (makeMove_part000 example_platform
                    (answer True 200 example_envelope_won_status) 5 example_session_part000)) \<and>
   winner (final (makeMove_part000 example_platform (answer True 200 example_envelope_status) 5
                    example_session_part000)) = JNull"
proof -
  have won: "winner (final (makeMove example_platform (answer True 200 example_envelope_won) 5
                    example_session)) = JStr ''X'' \<and>
     WinnerModal_open (final (makeMove example_platform (answer True 200 example_envelope_won) 5
                    example_session)) \<and>
     winner (final (makeMove_part000 example_platform
                    (answer True 200 example_envelope_won_status) 5 example_session_part000))
       = JStr ''X'' \<and>
     WinnerModal_open_part000 (final (makeMove_part000 example_platform
                    (answer True 200 example_envelope_won_status) 5 example_session_part000))"
    using makeMove_sets_winner [where st = example_session
        and r = "\<lparr>ok = True, status = 200, json = Fulfilled example_envelope_won\<rparr>"
        and data = example_envelope_won and pf = example_platform and g = example_won_payload
        and p = 5 and st_u = example_session_part000
        and r_u = "\<lparr>ok = True, status = 200, json = Fulfilled example_envelope_won_status\<rparr>"
        and data_u = example_envelope_won_status]
    by (simp add: example_defs envelope_success_flag_def envelope_status_success_def
        page_payload_def getprop_opt_def nullish_def)
  have going: "winner (final (makeMove example_platform (answer True 200 example_envelope) 5
                    example_session)) = JNull \<and>
     winner (final (makeMove_part000 example_platform (answer True 200 example_envelope_status) 5
                    example_session_part000)) = JNull"
    using makeMove_sets_winner [where st = example_session
        and r = "\<lparr>ok = True, status = 200, json = Fulfilled example_envelope\<rparr>"
        and data = example_envelope and pf = example_platform and g = example_payload
        and p = 5 and st_u = example_session_part000
        and r_u = "\<lparr>ok = True, status = 200, json = Fulfilled example_envelope_status\<rparr>"
        and data_u = example_envelope_status]
    by (simp add: example_defs envelope_success_flag_def envelope_status_success_def
        page_payload_def getprop_opt_def nullish_def)
  from won going show ?thesis by simp
qed

section \<open>Which envelopes a revision accepts\<close>

text \<open>
  C1, as the specification states it, fails: an envelope that signals success by
  \<open>status\<close> is a failure to \<open>src/app/page.tsx\<close>, which leaves the board alone and
  reports an error, and an envelope that signals success by the \<open>success\<close> flag is a
  failure to the unnamed revision.
\<close>

theorem other_variant_rejected:
  "envelope_status_success example_envelope_status \<and>
   gameState (final (makeMove example_platform (answer True 200 example_envelope_status) 5
                       example_session)) = empty_board \<and>
   getprop_opt example_payload ''game_state'' \<noteq> empty_board \<and>
   error (final (makeMove example_platform (answer True 200 example_envelope_status) 5
                   example_session)) = JStr ''Failed to process move'' \<and>
   envelope_success_flag example_envelope \<and>
   gameState (final (makeMove_part000 example_platform (answer True 200 example_envelope) 5
                       example_session_part000)) = empty_board \<and>
   error (final (makeMove_part000 example_platform (answer True 200 example_envelope) 5
                   example_session_part000)) = JStr ''Failed to process move''"
  by (simp add: example_defs page_flat part000_flat envelope_success_flag_def
      envelope_status_success_def getprop_opt_def nullish_def js_or_def)

text \<open>
  C1, amended. Each revision supports one variant. \<open>src/app/page.tsx\<close> accepts an
  envelope when its \<open>success\<close> and \<open>response\<close> are truthy, the unnamed revision when
  its \<open>status\<close> is \<open>"success"\<close> and its \<open>response\<close> is truthy. On an accepted envelope
  (for \<open>src/app/page.tsx\<close>: whose \<open>response\<close>, decoded when it is a string, is not
  \<open>null\<close>) \<open>makeMove\<close> and \<open>startNewGame\<close> set \<open>gameState\<close>, \<open>gameStatus\<close> and
  \<open>message\<close> to the payload's \<open>game_state\<close>, \<open>game_status\<close> and \<open>message\<close> and leave
  \<open>error\<close> null. An envelope that fails the revision's own test sets \<open>error\<close> and
  leaves \<open>gameState\<close> and \<open>message\<close> as they were.
\<close>

theorem envelope_acceptance:
  "(\<not> loading st \<and> ok r \<and> json r = Fulfilled data \<and> envelope_success_flag data \<and>
    page_payload pf data = Inr g \<and> \<not> nullish g \<longrightarrow>
      gameState (final (makeMove pf (Fulfilled r) p st)) = getprop_opt g ''game_state'' \<and>
      gameStatus (final (makeMove pf (Fulfilled r) p st)) = getprop_opt g ''game_status'' \<and>
      message (final (makeMove pf (Fulfilled r) p st)) = getprop_opt g ''message'' \<and>
      error (final (makeMove pf (Fulfilled r) p st)) = JNull \<and>
      gameState (final (startNewGame pf (Fulfilled r) st)) = getprop_opt g ''game_state'' \<and>
      gameStatus (final (startNewGame pf (Fulfilled r) st)) = getprop_opt g ''game_status'' \<and>
      message (final (startNewGame pf (Fulfilled r) st)) = getprop_opt g ''message'' \<and>
      error (final (startNewGame pf (Fulfilled r) st)) = JNull) \<and>
   (\<not> loading st \<and> ok r \<and> json r = Fulfilled data \<and> \<not> envelope_success_flag data \<longrightarrow>
      gameState (final (makeMove pf (Fulfilled r) p st)) = gameState st \<and>
      message (final (makeMove pf (Fulfilled r) p st)) = message st \<and>
      error (final (makeMove pf (Fulfilled r) p st)) \<noteq> JNull \<and>
      gameState (final (startNewGame pf (Fulfilled r) st)) = gameState st \<and>
      message (final (startNewGame pf (Fulfilled r) st)) = message st \<and>
      error (final (startNewGame pf (Fulfilled r) st)) \<noteq> JNull) \<and>
   (\<not> loading st_u \<and> json r_u = Fulfilled data_u \<and> envelope_status_success data_u \<longrightarrow>
      gameState (final (makeMove_part000 pf (Fulfilled r_u) p st_u))
        = getprop_opt (getprop_opt data_u ''response'') ''game_state'' \<and>
      gameStatus (final (makeMove_part000 pf (Fulfilled r_u) p st_u))
        = getprop_opt (getprop_opt data_u ''response'') ''game_status'' \<and>
      message (final (makeMove_part000 pf (Fulfilled r_u) p st_u))
        = getprop_opt (getprop_opt data_u ''response'') ''message'' \<and>
      error (final (makeMove_part000 pf (Fulfilled r_u) p st_u)) = JNull \<and>
      gameState (final (startNewGame_part000 pf (Fulfilled r_u) st_u))
        = getprop_opt (getprop_opt data_u ''response'') ''game_state'' \<and>
      gameStatus (final (startNewGame_part000 pf (Fulfilled r_u) st_u))
        = getprop_opt (getprop_opt data_u ''response'') ''game_status'' \<and>
      message (final (startNewGame_part000 pf (Fulfilled r_u) st_u))
        = getprop_opt (getprop_opt data_u ''response'') ''message'' \<and>
      error (final (startNewGame_part000 pf (Fulfilled r_u) st_u)) = JNull) \<and>
   (\<not> loading st_u \<and> json r_u = Fulfilled data_u \<and> \<not> envelope_status_success data_u \<longrightarrow>
      gameState (final (makeMove_part000 pf (Fulfilled r_u) p st_u)) = gameState st_u \<and>
      message (final (makeMove_part000 pf (Fulfilled r_u) p st_u)) = message st_u \<and>
      error (final (makeMove_part000 pf (Fulfilled r_u) p st_u)) \<noteq> JNull \<and>
      gameState (final (startNewGame_part000 pf (Fulfilled r_u) st_u)) = gameState st_u \<and>
      message (final (startNewGame_part000 pf (Fulfilled r_u) st_u)) = message st_u \<and>
      error (final (startNewGame_part000 pf (Fulfilled r_u) st_u)) \<noteq> JNull)"
proof -
  have a: "\<not> loading st \<and> ok r \<and> json r = Fulfilled data \<and> envelope_success_flag data \<and>
    page_payload pf data = Inr g \<and> \<not> nullish g \<longrightarrow>
      gameState (final (makeMove pf (Fulfilled r) p st)) = getprop_opt g ''game_state'' \<and>
      gameStatus (final (makeMove pf (Fulfilled r) p st)) = getprop_opt g ''game_status'' \<and>
      message (final (makeMove pf (Fulfilled r) p st)) = getprop_opt g ''message'' \<and>
      error (final (makeMove pf (Fulfilled r) p st)) = JNull \<and>
      gameState (final (startNewGame pf (Fulfilled r) st)) = getprop_opt g ''game_state'' \<and>
      gameStatus (final (startNewGame pf (Fulfilled r) st)) = getprop_opt g ''game_status'' \<and>
      message (final (startNewGame pf (Fulfilled r) st)) = getprop_opt g ''message'' \<and>
      error (final (startNewGame pf (Fulfilled r) st)) = JNull"
    by (auto simp: page_flat envelope_success_flag_def getprop_opt_nullish)
  have b: "\<not> loading st \<and> ok r \<and> json r = Fulfilled data \<and> \<not> envelope_success_flag data \<longrightarrow>
      gameState (final (makeMove pf (Fulfilled r) p st)) = gameState st \<and>
      message (final (makeMove pf (Fulfilled r) p st)) = message st \<and>
      error (final (makeMove pf (Fulfilled r) p st)) \<noteq> JNull \<and>
      gameState (final (startNewGame pf (Fulfilled r) st)) = gameState st \<and>
      message (final (startNewGame pf (Fulfilled r) st)) = message st \<and>
      error (final (startNewGame pf (Fulfilled r) st)) \<noteq> JNull"
    by (auto simp: page_flat js_or_def)
  have c: "\<not> loading st_u \<and> json r_u = Fulfilled data_u \<and> envelope_status_success data_u \<longrightarrow>
      gameState (final (makeMove_part000 pf (Fulfilled r_u) p st_u))
        = getprop_opt (getprop_opt data_u ''response'') ''game_state'' \<and>
      gameStatus (final (makeMove_part000 pf (Fulfilled r_u) p st_u))
        = getprop_opt (getprop_opt data_u ''response'') ''game_status'' \<and>
      message (final (makeMove_part000 pf (Fulfilled r_u) p st_u))
        = getprop_opt (getprop_opt data_u ''response'') ''message'' \<and>
      error (final (makeMove_part000 pf (Fulfilled r_u) p st_u)) = JNull \<and>
      gameState (final (startNewGame_part000 pf (Fulfilled r_u) st_u))
        = getprop_opt (getprop_opt data_u ''response'') ''game_state'' \<and>
      gameStatus (final (startNewGame_part000 pf (Fulfilled r_u) st_u))
        = getprop_opt (getprop_opt data_u ''response'') ''game_status'' \<and>
      message (final (startNewGame_part000 pf (Fulfilled r_u) st_u))
        = getprop_opt (getprop_opt data_u ''response'') ''message'' \<and>
      error (final (startNewGame_part000 pf (Fulfilled r_u) st_u)) = JNull"
    by (auto simp: part000_flat envelope_status_success_def getprop_opt_nullish
        dest: truthy_not_nullish)
  have d: "\<not> loading st_u \<and> json r_u = Fulfilled data_u \<and> \<not> envelope_status_success data_u \<longrightarrow>
      gameState (final (makeMove_part000 pf (Fulfilled r_u) p st_u)) = gameState st_u \<and>
      message (final (makeMove_part000 pf (Fulfilled r_u) p st_u)) = message st_u \<and>
      error (final (makeMove_part000 pf (Fulfilled r_u) p st_u)) \<noteq> JNull \<and>
      gameState (final (startNewGame_part000 pf (Fulfilled r_u) st_u)) = gameState st_u \<and>
      message (final (startNewGame_part000 pf (Fulfilled r_u) st_u)) = message st_u \<and>
      error (final (startNewGame_part000 pf (Fulfilled r_u) st_u)) \<noteq> JNull"
    by (auto simp: part000_flat)
  from a b c d show ?thesis by blast
qed

theorem envelope_acceptance_witness:
  "gameState (final (makeMove example_platform (answer True 200 example_envelope_encoded) 5
                       example_session)) = example_game_state \<and>
   message (final (startNewGame example_platform (answer True 200 example_envelope_encoded)
                     example_session)) = JStr ''Your move'' \<and>
   error (final (makeMove example_platform (answer True 200 example_envelope_encoded) 5
                   example_session)) = JNull \<and>
   gameState (final (makeMove_part000 example_platform (answer True 200 example_envelope_status) 5
                       example_session_part000)) = example_game_state \<and>
   error (final (startNewGame_part000 example_platform (answer True 200 example_envelope_status)
                   example_session_part000)) = JNull \<and>
   gameState (final (makeMove example_platform (answer True 200 example_envelope_status) 5
                       example_session)) = empty_board \<and>
   error (final (makeMove example_platform (answer True 200 example_envelope_status) 5
                   example_session)) \<noteq> JNull \<and>
   gameState (final (makeMove_part000 example_platform (answer True 200 example_envelope_encoded) 5
                       example_session_part000)) = empty_board \<and>
   error (final (makeMove_part000 example_platform (answer True 200 example_envelope_encoded) 5
                   example_session_part000)) \<noteq> JNull"
proof -
  have accepted:
    "gameState (final (makeMove example_platform (answer True 200 example_envelope_encoded) 5
                       example_session)) = example_game_state \<and>
     message (final (startNewGame example_platform (answer True 200 example_envelope_encoded)
                     example_session)) = JStr ''Your move'' \<and>
     error (final (makeMove example_platform (answer True 200 example_envelope_encoded) 5
                   example_session)) = JNull \<and>
     gameState (final (makeMove_part000 example_platform (answer True 200 example_envelope_status)
                       5 example_session_part000)) = example_game_state \<and>
     error (final (startNewGame_part000 example_platform (answer True 200 example_envelope_status)
                   example_session_part000)) = JNull"
    using envelope_acceptance [where st = example_session
        and r = "\<lparr>ok = True, status = 200, json = Fulfilled example_envelope_encoded\<rparr>"
        and data = example_envelope_encoded and pf = example_platform and g = example_payload
        and p = 5 and st_u = example_session_part000
        and r_u = "\<lparr>ok = True, status = 200, json = Fulfilled example_envelope_status\<rparr>"
        and data_u = example_envelope_status]
    by (simp add: example_defs envelope_success_flag_def envelope_status_success_def
        page_payload_def getprop_opt_def nullish_def)
  have rejected:
    "gameState (final (makeMove example_platform (answer True 200 example_envelope_status) 5
                       example_session)) = empty_board \<and>
     error (final (makeMove example_platform (answer True 200 example_envelope_status) 5
                   example_session)) \<noteq> JNull \<and>
     gameState (final (makeMove_part000 example_platform
                       (answer True 200 example_envelope_encoded) 5 example_session_part000))
       = empty_board \<and>
     error (final (makeMove_part000 example_platform (answer True 200 example_envelope_encoded) 5
                   example_session_part000)) \<noteq> JNull"
    using envelope_acceptance [where st = example_session
        and r = "\<lparr>ok = True, status = 200, json = Fulfilled example_envelope_status\<rparr>"
        and data = example_envelope_status and pf = example_platform and g = example_payload
        and p = 5 and st_u = example_session_part000
        and r_u = "\<lparr>ok = True, status = 200, json = Fulfilled example_envelope_encoded\<rparr>"
        and data_u = example_envelope_encoded]
    by (simp add: example_defs envelope_success_flag_def envelope_status_success_def
        getprop_opt_def)
  from accepted rejected show ?thesis by simp
qed

section \<open>A payload sent as an object or as its JSON text\<close>

text \<open>
  C2, as the specification states it, fails in the unnamed revision, which never
  decodes \<open>response\<close>: with the payload as an object the board is the payload's
  \<open>game_state\<close>; with the same payload as its JSON text the board becomes
  \<open>undefined\<close>.
\<close>

theorem part000_encoded_response_differs:
  "JSON_parse example_platform example_payload_text = Inr example_payload \<and>
   gameState (final (makeMove_part000 example_platform (answer True 200 example_envelope_status) 5
                       example_session_part000)) = example_game_state \<and>
   gameState (final (makeMove_part000 example_platform
                       (answer True 200 example_envelope_status_encoded) 5
                       example_session_part000)) = JUndefined \<and>
   gameState (final (makeMove_part000 example_platform (answer True 200 example_envelope_status) 5
                       example_session_part000))
   \<noteq> gameState (final (makeMove_part000 example_platform
                       (answer True 200 example_envelope_status_encoded) 5
                       example_session_part000))"
  by (simp add: example_defs part000_flat envelope_status_success_def getprop_opt_def nullish_def)

text \<open>
  C2, amended. In \<open>src/app/page.tsx\<close>, for every payload object and every non-empty
  text that \<open>JSON.parse\<close> decodes to it, an envelope with the payload as \<open>response\<close>
  and the same envelope with the text as \<open>response\<close> give the same run of \<open>makeMove\<close>
  and of \<open>startNewGame\<close>: the same session, hence the same \<open>gameState\<close>, which on an
  accepted envelope is the payload's \<open>game_state\<close>. The unnamed revision uses a string
  \<open>response\<close> as the payload itself and sets \<open>gameState\<close> to \<open>undefined\<close>.
\<close>

theorem page_double_encoding:
  "(getprop_opt (JObj kvs) ''response'' = JObj props \<and>
    getprop_opt (JObj kvs_enc) ''response'' = JStr s \<and>
    (\<forall>k. k \<noteq> ''response'' \<longrightarrow> getprop_opt (JObj kvs) k = getprop_opt (JObj kvs_enc) k) \<and>
    JSON_parse pf s = Inr (JObj props) \<and> s \<noteq> [] \<longrightarrow>
      makeMove pf (Fulfilled (r\<lparr>json := Fulfilled (JObj kvs)\<rparr>)) p st
      = makeMove pf (Fulfilled (r\<lparr>json := Fulfilled (JObj kvs_enc)\<rparr>)) p st \<and>
      startNewGame pf (Fulfilled (r\<lparr>json := Fulfilled (JObj kvs)\<rparr>)) st
      = startNewGame pf (Fulfilled (r\<lparr>json := Fulfilled (JObj kvs_enc)\<rparr>)) st \<and>
      (\<not> loading st \<and> ok r \<and> truthy (getprop_opt (JObj kvs) ''success'') \<longrightarrow>
         gameState (final (makeMove pf (Fulfilled (r\<lparr>json := Fulfilled (JObj kvs_enc)\<rparr>)) p st))
         = getprop_opt (JObj props) ''game_state'')) \<and>
   (getprop_opt (JObj kvs_u) ''status'' = JStr ''success'' \<and>
    getprop_opt (JObj kvs_u) ''response'' = JStr s_u \<and> s_u \<noteq> [] \<and> \<not> loading st_u \<longrightarrow>
      gameState (final (makeMove_part000 pf (Fulfilled (r\<lparr>json := Fulfilled (JObj kvs_u)\<rparr>))
                          p st_u)) = JUndefined)"
proof (intro conjI impI)
  assume h: "getprop_opt (JObj kvs) ''response'' = JObj props \<and>
    getprop_opt (JObj kvs_enc) ''response'' = JStr s \<and>
    (\<forall>k. k \<noteq> ''response'' \<longrightarrow> getprop_opt (JObj kvs) k = getprop_opt (JObj kvs_enc) k) \<and>
    JSON_parse pf s = Inr (JObj props) \<and> s \<noteq> []"
  from h have obj: "getprop_opt (JObj kvs) ''response'' = JObj props"
    and enc: "getprop_opt (JObj kvs_enc) ''response'' = JStr s"
    and parse: "JSON_parse pf s = Inr (JObj props)" and ne: "s \<noteq> []"
    by simp_all
  from h have rest: "\<forall>k. k \<noteq> ''response'' \<longrightarrow>
      getprop_opt (JObj kvs) k = getprop_opt (JObj kvs_enc) k"
    by simp
  have suc: "getprop_opt (JObj kvs_enc) ''success'' = getprop_opt (JObj kvs) ''success''"
    using rest [rule_format, of "''success''"] by simp
  have err: "getprop_opt (JObj kvs_enc) ''error'' = getprop_opt (JObj kvs) ''error''"
    using rest [rule_format, of "''error''"] by simp
  have pa: "page_payload pf (JObj kvs_enc) = Inr (JObj props)"
    by (simp add: page_payload_def enc parse)
  have pb: "page_payload pf (JObj kvs) = Inr (JObj props)"
    by (simp add: page_payload_def obj)
  have fl: "envelope_success_flag (JObj kvs_enc) = envelope_success_flag (JObj kvs)"
    by (simp add: envelope_success_flag_def suc enc obj ne)
  have nn: "\<not> nullish (JObj xs)" for xs
    by (simp add: nullish_def)
  show "makeMove pf (Fulfilled (r\<lparr>json := Fulfilled (JObj kvs)\<rparr>)) p st
      = makeMove pf (Fulfilled (r\<lparr>json := Fulfilled (JObj kvs_enc)\<rparr>)) p st"
    by (simp add: makeMove_def makeMove_try_def makeMove_data_flat pa pb fl err nn Let_def)
  show "startNewGame pf (Fulfilled (r\<lparr>json := Fulfilled (JObj kvs)\<rparr>)) st
      = startNewGame pf (Fulfilled (r\<lparr>json := Fulfilled (JObj kvs_enc)\<rparr>)) st"
    by (simp add: startNewGame_def startNewGame_try_def startNewGame_data_flat pa pb fl err nn
        Let_def)
  assume g: "\<not> loading st \<and> ok r \<and> truthy (getprop_opt (JObj kvs) ''success'')"
  have "envelope_success_flag (JObj kvs_enc)"
    using g by (simp add: envelope_success_flag_def suc enc ne)
  with g show "gameState (final (makeMove pf (Fulfilled (r\<lparr>json := Fulfilled (JObj kvs_enc)\<rparr>))
                                  p st)) = getprop_opt (JObj props) ''game_state''"
    by (simp add: page_flat pa nn)
next
  assume u: "getprop_opt (JObj kvs_u) ''status'' = JStr ''success'' \<and>
    getprop_opt (JObj kvs_u) ''response'' = JStr s_u \<and> s_u \<noteq> [] \<and> \<not> loading st_u"
  then have "envelope_status_success (JObj kvs_u)"
    by (simp add: envelope_status_success_def)
  with u show "gameState (final (makeMove_part000 pf
      (Fulfilled (r\<lparr>json := Fulfilled (JObj kvs_u)\<rparr>)) p st_u)) = JUndefined"
    by (simp add: part000_flat nullish_def) (simp add: getprop_opt_def)
qed

theorem page_double_encoding_witness:
  "makeMove example_platform (answer True 200 example_envelope) 5 example_session
   = makeMove example_platform (answer True 200 example_envelope_encoded) 5 example_session \<and>
   startNewGame example_platform (answer True 200 example_envelope) example_session
   = startNewGame example_platform (answer True 200 example_envelope_encoded) example_session \<and>
   gameState (final (makeMove example_platform (answer True 200 example_envelope_encoded) 5
                       example_session)) = example_game_state \<and>
   gameState (final (makeMove_part000 example_platform
                       (answer True 200 example_envelope_status_encoded) 5
                       example_session_part000)) = JUndefined"
proof -
  have h: "getprop_opt (JObj [(''success'', JBool True), (''response'', example_payload)])
             ''response''
           = JObj [(''game_state'', example_game_state), (''game_status'', JStr ''in_progress''),
                   (''winner'', JStr ''none''), (''message'', JStr ''Your move'')]"
    "getprop_opt (JObj [(''success'', JBool True), (''response'', JStr example_payload_text)])
       ''response'' = JStr example_payload_text"
    "\<forall>k. k \<noteq> ''response'' \<longrightarrow>
       getprop_opt (JObj [(''success'', JBool True), (''response'', example_payload)]) k
       = getprop_opt (JObj [(''success'', JBool True), (''response'', JStr example_payload_text)]) k"
    "JSON_parse example_platform example_payload_text
       = Inr (JObj [(''game_state'', example_game_state), (''game_status'', JStr ''in_progress''),
                    (''winner'', JStr ''none''), (''message'', JStr ''Your move'')])"
    "example_payload_text \<noteq> []"
    "getprop_opt (JObj [(''status'', JStr ''success''), (''response'', JStr example_payload_text)])
       ''status'' = JStr ''success''"
    "getprop_opt (JObj [(''status'', JStr ''success''), (''response'', JStr example_payload_text)])
       ''response'' = JStr example_payload_text"
    "\<not> loading example_session_part000" "\<not> loading example_session"
    "truthy (getprop_opt (JObj [(''success'', JBool True), (''response'', example_payload)])
       ''success'')"
    by (simp_all add: getprop_opt_def example_payload_def example_platform_def
        example_JSON_parse_def example_payload_text_def example_session_def
        example_session_part000_def)
  have g: "getprop_opt (JObj [(''game_state'', example_game_state),
             (''game_status'', JStr ''in_progress''), (''winner'', JStr ''none''),
             (''message'', JStr ''Your move'')]) ''game_state'' = example_game_state"
    by (simp add: getprop_opt_def)
  note t = page_double_encoding [where pf = example_platform and s = example_payload_text
      and props = "[(''game_state'', example_game_state), (''game_status'', JStr ''in_progress''),
                     (''winner'', JStr ''none''), (''message'', JStr ''Your move'')]"
      and r = "\<lparr>ok = True, status = 200, json = Pending\<rparr>"
      and kvs = "[(''success'', JBool True), (''response'', example_payload)]"
      and kvs_enc = "[(''success'', JBool True), (''response'', JStr example_payload_text)]"
      and p = 5 and st = example_session and st_u = example_session_part000
      and kvs_u = "[(''status'', JStr ''success''), (''response'', JStr example_payload_text)]"
      and s_u = example_payload_text]
  from t h have c: "makeMove example_platform
        (Fulfilled (\<lparr>ok = True, status = 200, json = Pending\<rparr>
           \<lparr>json := Fulfilled (JObj [(''success'', JBool True), (''response'', example_payload)])\<rparr>))
        5 example_session
      = makeMove example_platform
        (Fulfilled (\<lparr>ok = True, status = 200, json = Pending\<rparr>
           \<lparr>json := Fulfilled (JObj [(''success'', JBool True),
                                        (''response'', JStr example_payload_text)])\<rparr>))
        5 example_session"
    "startNewGame example_platform
        (Fulfilled (\<lparr>ok = True, status = 200, json = Pending\<rparr>
           \<lparr>json := Fulfilled (JObj [(''success'', JBool True), (''response'', example_payload)])\<rparr>))
        example_session
      = startNewGame example_platform
        (Fulfilled (\<lparr>ok = True, status = 200, json = Pending\<rparr>
           \<lparr>json := Fulfilled (JObj [(''success'', JBool True),
                                        (''response'', JStr example_payload_text)])\<rparr>))
        example_session"
    "gameState (final (makeMove example_platform
        (Fulfilled (\<lparr>ok = True, status = 200, json = Pending\<rparr>
           \<lparr>json := Fulfilled (JObj [(''success'', JBool True),
                                        (''response'', JStr example_payload_text)])\<rparr>))
        5 example_session))
      = getprop_opt (JObj [(''game_state'', example_game_state),
             (''game_status'', JStr ''in_progress''), (''winner'', JStr ''none''),
             (''message'', JStr ''Your move'')]) ''game_state''"
    "gameState (final (makeMove_part000 example_platform
        (Fulfilled (\<lparr>ok = True, status = 200, json = Pending\<rparr>
           \<lparr>json := Fulfilled (JObj [(''status'', JStr ''success''),
                                        (''response'', JStr example_payload_text)])\<rparr>))
        5 example_session_part000)) = JUndefined"
    by simp_all
  show ?thesis
    using c
    by (simp add: g answer_def example_envelope_def example_envelope_encoded_def
        example_envelope_status_encoded_def)
qed

section \<open>startNewGame while a request is in flight\<close>

text \<open>
  C4, as the specification states it, fails: \<open>startNewGame\<close> does not test \<open>loading\<close>.
  Called on the session a pending \<open>makeMove\<close> leaves, in which \<open>loading\<close> is true, it
  sends a second request.
\<close>

theorem startNewGame_sends_while_loading:
  "loading (final (makeMove example_platform Pending 5 example_session)) \<and>
   ended (makeMove example_platform Pending 5 example_session) = Suspended \<and>
   sent (startNewGame example_platform Pending
           (final (makeMove example_platform Pending 5 example_session)))
     = [agent_request ''new game''] \<and>
   loading (final (makeMove_part000 example_platform Pending 5 example_session_part000)) \<and>
   sent (startNewGame_part000 example_platform Pending
           (final (makeMove_part000 example_platform Pending 5 example_session_part000)))
     = [agent_request ''new game'']"
  by (simp add: example_session_def example_session_part000_def page_flat part000_flat)

text \<open>
  C4, amended. \<open>startNewGame\<close> has no guard of its own: whenever it is called, also
  while \<open>loading\<close> is true, it sends its request. The guard is in the view: the New
  Game button is disabled exactly when \<open>loading\<close> is true, which it is while a move
  request is pending, so a click on it then runs no handler and sends nothing; when
  \<open>loading\<close> is false the click runs \<open>startNewGame\<close>.
\<close>

theorem NewGame_guarded_by_button:
  "sent (startNewGame pf f st) = [agent_request ''new game''] \<and>
   sent (startNewGame_part000 pf f st_u) = [agent_request ''new game''] \<and>
   NewGame_disabled st = loading st \<and>
   NewGame_disabled st_u = loading st_u \<and>
   (\<not> loading st \<longrightarrow> NewGame_disabled (final (makeMove pf Pending p st))) \<and>
   (\<not> loading st_u \<longrightarrow> NewGame_disabled (final (makeMove_part000 pf Pending p st_u))) \<and>
   (loading st \<longrightarrow> click_NewGame pf f st = \<lparr>final = st, sent = [], ended = Normal\<rparr>) \<and>
   (loading st_u \<longrightarrow>
      click_NewGame_part000 pf f st_u = \<lparr>final = st_u, sent = [], ended = Normal\<rparr>) \<and>
   (\<not> loading st \<longrightarrow> click_NewGame pf f st = startNewGame pf f st) \<and>
   (\<not> loading st_u \<longrightarrow> click_NewGame_part000 pf f st_u = startNewGame_part000 pf f st_u)"
proof -
  have a: "sent (startNewGame pf f st) = [agent_request ''new game'']"
    by (simp add: startNewGame_def Let_def catch_finally_sent)
  have b: "sent (startNewGame_part000 pf f st_u) = [agent_request ''new game'']"
    by (simp add: startNewGame_part000_def Let_def catch_finally_sent)
  show ?thesis
    by (simp add: a b NewGame_disabled_def click_NewGame_def click_NewGame_part000_def
        makeMove_def makeMove_part000_def makeMove_try_def makeMove_try_part000_def
        catch_finally_def Let_def)
qed

theorem NewGame_guarded_by_button_witness:
  "loading (final (makeMove example_platform Pending 5 example_session)) \<and>
   click_NewGame example_platform (answer True 200 example_envelope)
       (final (makeMove example_platform Pending 5 example_session))
     = \<lparr>final = final (makeMove example_platform Pending 5 example_session), sent = [],
        ended = Normal\<rparr> \<and>
   loading (final (makeMove_part000 example_platform Pending 5 example_session_part000)) \<and>
   click_NewGame_part000 example_platform (answer True 200 example_envelope_status)
       (final (makeMove_part000 example_platform Pending 5 example_session_part000))
     = \<lparr>final = final (makeMove_part000 example_platform Pending 5 example_session_part000),
        sent = [], ended = Normal\<rparr> \<and>
   \<not> loading example_session \<and>
   click_NewGame example_platform (answer True 200 example_envelope) example_session
     = startNewGame example_platform (answer True 200 example_envelope) example_session \<and>
   \<not> loading example_session_part000 \<and>
   click_NewGame_part000 example_platform (answer True 200 example_envelope_status)
       example_session_part000
     = startNewGame_part000 example_platform (answer True 200 example_envelope_status)
         example_session_part000"
proof -
  have l: "\<not> loading example_session" "\<not> loading example_session_part000"
    by (simp_all add: example_session_def example_session_part000_def)
  have m: "loading (final (makeMove example_platform Pending 5 example_session))"
    "loading (final (makeMove_part000 example_platform Pending 5 example_session_part000))"
    using l by (simp_all add: page_flat part000_flat)
  show ?thesis
    using l m
      NewGame_guarded_by_button [where pf = example_platform
        and f = "answer True 200 example_envelope"
        and st = "final (makeMove example_platform Pending 5 example_session)"
        and st_u = "final (makeMove_part000 example_platform Pending 5 example_session_part000)"]
      NewGame_guarded_by_button [where pf = example_platform
        and f = "answer True 200 example_envelope_status"
        and st = "final (makeMove example_platform Pending 5 example_session)"
        and st_u = "final (makeMove_part000 example_platform Pending 5 example_session_part000)"]
      NewGame_guarded_by_button [where pf = example_platform
        and f = "answer True 200 example_envelope"
        and st = example_session and st_u = example_session_part000]
      NewGame_guarded_by_button [where pf = example_platform
        and f = "answer True 200 example_envelope_status"
        and st = example_session and st_u = example_session_part000]
    by simp
qed

section \<open>Failures set the error and keep the board\<close>

lemma errorMsg_ErrorObj: "errorMsg (ErrorObj m) = m"
  by (simp add: errorMsg_def)

lemma nonempty_js_or:
  "string_or_falsy v \<Longrightarrow> d \<noteq> [] \<Longrightarrow> nonempty_string (js_or v (JStr d))"
  by (cases v) (simp_all add: js_or_def nonempty_string_def string_or_falsy_def)

lemma page_payload_message:
  "page_payload pf data = Inl e \<Longrightarrow> \<forall>s m. JSON_parse pf s = Inl m \<longrightarrow> m \<noteq> [] \<Longrightarrow>
   errorMsg e \<noteq> []"
  by (auto simp: page_payload_def errorMsg_def split: jsval.splits sum.splits)

lemma envelope_flag_not_nullish: "envelope_success_flag data \<Longrightarrow> \<not> nullish data"
  by (auto simp: envelope_success_flag_def getprop_opt_nullish)

lemma envelope_status_not_nullish: "envelope_status_success data \<Longrightarrow> \<not> nullish data"
  by (auto simp: envelope_status_success_def getprop_opt_nullish)

lemma page_failure_cases:
  assumes "page_failure pf f"
  obtains (rejected) e where "f = Rejected e"
    | (status) r where "f = Fulfilled r" "\<not> ok r"
    | (body) r e where "f = Fulfilled r" "ok r" "json r = Rejected e"
    | (null_body) r data where "f = Fulfilled r" "ok r" "json r = Fulfilled data" "nullish data"
    | (envelope) r data where "f = Fulfilled r" "ok r" "json r = Fulfilled data"
        "\<not> nullish data" "\<not> envelope_success_flag data"
    | (decode) r data e where "f = Fulfilled r" "ok r" "json r = Fulfilled data"
        "\<not> nullish data" "envelope_success_flag data" "page_payload pf data = Inl e"
    | (null_payload) r data g where "f = Fulfilled r" "ok r" "json r = Fulfilled data"
        "\<not> nullish data" "envelope_success_flag data" "page_payload pf data = Inr g" "nullish g"
proof (cases f)
  case Pending
  with assms show ?thesis by (simp add: page_failure_def)
next
  case (Rejected e)
  then show ?thesis by (rule rejected)
next
  case (Fulfilled r)
  show ?thesis
  proof (cases "ok r")
    case False
    with Fulfilled show ?thesis by (rule status)
  next
    case True
    show ?thesis
    proof (cases "json r")
      case Pending
      with assms Fulfilled True show ?thesis by (simp add: page_failure_def)
    next
      case (Rejected e)
      with Fulfilled True show ?thesis by (rule body)
    next
      case data: (Fulfilled data)
      show ?thesis
      proof (cases "nullish data")
        case True
        with Fulfilled \<open>ok r\<close> data show ?thesis by (rule null_body)
      next
        case nn: False
        show ?thesis
        proof (cases "envelope_success_flag data")
          case False
          with Fulfilled \<open>ok r\<close> data nn show ?thesis by (rule envelope)
        next
          case flag: True
          show ?thesis
          proof (cases "page_payload pf data")
            case (Inl e)
            with Fulfilled \<open>ok r\<close> data nn flag show ?thesis by (rule decode)
          next
            case (Inr g)
            with assms Fulfilled \<open>ok r\<close> data flag have "nullish g"
              by (simp add: page_failure_def)
            with Fulfilled \<open>ok r\<close> data nn flag Inr show ?thesis by (rule null_payload)
          qed
        qed
      qed
    qed
  qed
qed

lemma part000_failure_cases:
  assumes "part000_failure f"
  obtains (rejected) e where "f = Rejected e"
    | (body) r e where "f = Fulfilled r" "json r = Rejected e"
    | (null_body) r data where "f = Fulfilled r" "json r = Fulfilled data" "nullish data"
    | (envelope) r data where "f = Fulfilled r" "json r = Fulfilled data"
        "\<not> nullish data" "\<not> envelope_status_success data"
proof (cases f)
  case Pending
  with assms show ?thesis by (simp add: part000_failure_def)
next
  case (Rejected e)
  then show ?thesis by (rule rejected)
next
  case (Fulfilled r)
  show ?thesis
  proof (cases "json r")
    case Pending
    with assms Fulfilled show ?thesis by (simp add: part000_failure_def)
  next
    case (Rejected e)
    with Fulfilled show ?thesis by (rule body)
  next
    case data: (Fulfilled data)
    show ?thesis
    proof (cases "nullish data")
      case True
      with Fulfilled data show ?thesis by (rule null_body)
    next
      case False
      moreover from assms Fulfilled data have "\<not> envelope_status_success data"
        by (simp add: part000_failure_def)
      ultimately show ?thesis using Fulfilled data by (intro envelope)
    qed
  qed
qed

lemmas failed_simps = messages_nonempty_def nonempty_string_def nonempty_js_or
  page_payload_message errorMsg_ErrorObj js_or_default_not_null

lemma makeMove_failure:
  assumes "page_failure pf f" and "\<not> loading st"
  shows "gameState (final (makeMove pf f p st)) = gameState st \<and>
         error (final (makeMove pf f p st)) \<noteq> JNull \<and>
         (messages_nonempty pf f \<longrightarrow> nonempty_string (error (final (makeMove pf f p st))))"
  using assms(1)
proof (cases rule: page_failure_cases)
  case (envelope r data)
  with assms(2) show ?thesis
    by (simp add: page_flat failed_simps) (simp add: nonempty_js_or [unfolded nonempty_string_def])
qed (use assms(2) in \<open>simp_all add: page_flat failed_simps\<close>)

lemma startNewGame_failure:
  assumes "page_failure pf f"
  shows "gameState (final (startNewGame pf f st)) = gameState st \<and>
         error (final (startNewGame pf f st)) \<noteq> JNull \<and>
         (messages_nonempty pf f \<longrightarrow> nonempty_string (error (final (startNewGame pf f st))))"
  using assms
proof (cases rule: page_failure_cases)
  case (envelope r data)
  then show ?thesis
    by (simp add: page_flat failed_simps) (simp add: nonempty_js_or [unfolded nonempty_string_def])
qed (simp_all add: page_flat failed_simps)

lemma makeMove_part000_failure:
  assumes "part000_failure f" and "\<not> loading st_u"
  shows "gameState (final (makeMove_part000 pf f p st_u)) = gameState st_u \<and>
         error (final (makeMove_part000 pf f p st_u)) \<noteq> JNull \<and>
         (messages_nonempty pf f \<longrightarrow>
            nonempty_string (error (final (makeMove_part000 pf f p st_u))))"
  using assms(1)
  by (cases rule: part000_failure_cases)
     (use assms(2) in \<open>simp_all add: part000_flat failed_simps\<close>)

lemma startNewGame_part000_failure:
  assumes "part000_failure f"
  shows "gameState (final (startNewGame_part000 pf f st_u)) = gameState st_u \<and>
         error (final (startNewGame_part000 pf f st_u)) \<noteq> JNull \<and>
         (messages_nonempty pf f \<longrightarrow>
            nonempty_string (error (final (startNewGame_part000 pf f st_u))))"
  using assms
  by (cases rule: part000_failure_cases) (simp_all add: part000_flat failed_simps)

text \<open>
  C6, as the specification states it, fails in the unnamed revision, which has no
  second decoding layer: a string \<open>response\<close> that is not JSON, inside an envelope
  whose \<open>status\<close> is \<open>"success"\<close>, is taken as the payload. No error is set and the
  board is overwritten with \<open>undefined\<close>. In \<open>src/app/page.tsx\<close> the error that a
  failure envelope sets is the envelope's own truthy \<open>error\<close>, string or not, and the
  error that a rejection sets is its message, empty or not.
\<close>

theorem part000_undecodable_response_accepted:
  "JSON_parse example_platform ''{bad'' = Inl ''Unexpected token'' \<and>
   getprop_opt example_envelope_status_broken ''response'' = JStr ''{bad'' \<and>
   gameState example_session_part000 = empty_board \<and>
   gameState (final (makeMove_part000 example_platform
                       (answer True 200 example_envelope_status_broken) 5
                       example_session_part000)) = JUndefined \<and>
   error (final (makeMove_part000 example_platform
                   (answer True 200 example_envelope_status_broken) 5
                   example_session_part000)) = JNull \<and>
   error (final (makeMove example_platform
                   (answer True 200 (JObj [(''success'', JBool False), (''error'', JNum 42)])) 5
                   example_session)) = JNum 42 \<and>
   error (final (makeMove example_platform (Rejected (ErrorObj [])) 5 example_session))
     = JStr []"
  by (simp add: example_defs part000_flat page_flat envelope_status_success_def
      envelope_success_flag_def getprop_opt_def nullish_def js_or_def errorMsg_def)

text \<open>
  C6, amended. Every failure a revision detects leaves \<open>gameState\<close> exactly as it
  was and sets \<open>error\<close>, to a non-empty string when the messages of the engine and of
  the transport are non-empty and the \<open>error\<close> field of the envelope, if truthy, is a
  string. \<open>src/app/page.tsx\<close> detects a rejected request, a status that is not OK, a
  body that is not JSON, an envelope that does not signal success, and a string
  \<open>response\<close> that is not JSON or decodes to \<open>null\<close>. The unnamed revision detects
  a rejected request, a body that is not JSON and an envelope that does not signal
  success; it has no second decoding layer.
\<close>

theorem failure_sets_error_keeps_board:
  "(page_failure pf f \<longrightarrow>
      gameState (final (startNewGame pf f st)) = gameState st \<and>
      error (final (startNewGame pf f st)) \<noteq> JNull \<and>
      (messages_nonempty pf f \<longrightarrow> nonempty_string (error (final (startNewGame pf f st))))) \<and>
   (page_failure pf f \<and> \<not> loading st \<longrightarrow>
      gameState (final (makeMove pf f p st)) = gameState st \<and>
      error (final (makeMove pf f p st)) \<noteq> JNull \<and>
      (messages_nonempty pf f \<longrightarrow> nonempty_string (error (final (makeMove pf f p st))))) \<and>
   (part000_failure f_u \<longrightarrow>
      gameState (final (startNewGame_part000 pf f_u st_u)) = gameState st_u \<and>
      error (final (startNewGame_part000 pf f_u st_u)) \<noteq> JNull \<and>
      (messages_nonempty pf f_u \<longrightarrow>
         nonempty_string (error (final (startNewGame_part000 pf f_u st_u))))) \<and>
   (part000_failure f_u \<and> \<not> loading st_u \<longrightarrow>
      gameState (final (makeMove_part000 pf f_u p st_u)) = gameState st_u \<and>
      error (final (makeMove_part000 pf f_u p st_u)) \<noteq> JNull \<and>
      (messages_nonempty pf f_u \<longrightarrow>
         nonempty_string (error (final (makeMove_part000 pf f_u p st_u)))))"
  using startNewGame_failure [of pf f st] makeMove_failure [of pf f st p]
    startNewGame_part000_failure [of f_u pf st_u] makeMove_part000_failure [of f_u st_u pf p]
  by blast

theorem failure_sets_error_keeps_board_witness:
  "page_failure example_platform (answer True 200 example_envelope_failure) \<and>
   part000_failure (answer True 200 example_envelope_failure) \<and>
   messages_nonempty example_platform (answer True 200 example_envelope_failure) \<and>
   \<not> loading example_session \<and> \<not> loading example_session_part000 \<and>
   gameState (final (startNewGame example_platform (answer True 200 example_envelope_failure)
                       example_session)) = empty_board \<and>
   nonempty_string (error (final (startNewGame example_platform
                       (answer True 200 example_envelope_failure) example_session))) \<and>
   gameState (final (makeMove example_platform (answer True 200 example_envelope_failure) 5
                       example_session)) = empty_board \<and>
   nonempty_string (error (final (makeMove example_platform
                       (answer True 200 example_envelope_failure) 5 example_session))) \<and>
   gameState (final (startNewGame_part000 example_platform
                       (answer True 200 example_envelope_failure) example_session_part000))
     = empty_board \<and>
   nonempty_string (error (final (startNewGame_part000 example_platform
                       (answer True 200 example_envelope_failure) example_session_part000))) \<and>
   gameState (final (makeMove_part000 example_platform
                       (answer True 200 example_envelope_failure) 5 example_session_part000))
     = empty_board \<and>
   nonempty_string (error (final (makeMove_part000 example_platform
                       (answer True 200 example_envelope_failure) 5 example_session_part000)))"
proof -
  have f: "page_failure example_platform (answer True 200 example_envelope_failure)"
    "part000_failure (answer True 200 example_envelope_failure)"
    by (simp_all add: page_failure_def part000_failure_def answer_def
        example_envelope_failure_def envelope_success_flag_def envelope_status_success_def
        getprop_opt_def)
  have m: "messages_nonempty example_platform (answer True 200 example_envelope_failure)"
    by (simp add: messages_nonempty_def example_platform_def example_JSON_parse_def
        example_nullish_read_message_def answer_def example_envelope_failure_def
        getprop_opt_def string_or_falsy_def)
  have l: "\<not> loading example_session" "\<not> loading example_session_part000"
    "gameState example_session = empty_board" "gameState example_session_part000 = empty_board"
    by (simp_all add: example_session_def example_session_part000_def)
  show ?thesis
    using f m l failure_sets_error_keeps_board [where pf = example_platform
        and f = "answer True 200 example_envelope_failure" and st = example_session and p = 5
        and f_u = "answer True 200 example_envelope_failure" and st_u = example_session_part000]
    by simp
qed

section \<open>No fault leaves an operation\<close>

lemma catch_finally_never_throws: "ended (catch_finally reqs r) \<noteq> Threw e"
  by (simp add: catch_finally_ended)

text \<open>
  C7, as the specification states it, fails in the unnamed revision, which never
  reads the HTTP status: an answer whose status is not OK and whose body is an
  envelope that signals success is handled as a success, and no error is set.
\<close>

theorem part000_ignores_http_status:
  "ended (makeMove_part000 example_platform (answer False 500 example_envelope_status) 5
            example_session_part000) = Normal \<and>
   error (final (makeMove_part000 example_platform (answer False 500 example_envelope_status) 5
                   example_session_part000)) = JNull \<and>
   gameState (final (makeMove_part000 example_platform (answer False 500 example_envelope_status)
                       5 example_session_part000)) = example_game_state \<and>
   error (final (makeMove example_platform (answer False 500 example_envelope) 5
                   example_session)) = JStr ''API error: 500''"
proof -
  have "string_of_nat 500 = ''500''"
    by code_simp
  then show ?thesis
    by (simp add: example_defs part000_flat page_flat envelope_status_success_def
        getprop_opt_def nullish_def errorMsg_def)
qed

text \<open>
  C7, amended. No answer makes \<open>makeMove\<close> or \<open>startNewGame\<close> end with a fault: every
  throw inside the \<open>try\<close> block is caught and its message stored in \<open>error\<close>. In both
  revisions a rejected request and a body that is not JSON store the message of the
  rejection, and an envelope that does not signal success stores the fixed message
  (in \<open>src/app/page.tsx\<close>: the envelope's own \<open>error\<close> when that is truthy). Only
  \<open>src/app/page.tsx\<close> turns a status that is not OK into \<open>"API error: "\<close> and the
  status, and a string \<open>response\<close> that is not JSON into the message of the
  SyntaxError; the unnamed revision reads neither the status nor a string
  \<open>response\<close>.
\<close>

theorem faults_are_caught:
  "ended (makeMove pf f p st) \<noteq> Threw x \<and>
   ended (startNewGame pf f st) \<noteq> Threw x \<and>
   ended (makeMove_part000 pf f p st_u) \<noteq> Threw x \<and>
   ended (startNewGame_part000 pf f st_u) \<noteq> Threw x \<and>
   (\<not> loading st \<longrightarrow>
      error (final (makeMove pf (Rejected e) p st)) = JStr (errorMsg e)) \<and>
   error (final (startNewGame pf (Rejected e) st)) = JStr (errorMsg e) \<and>
   (\<not> loading st \<and> \<not> ok r_status \<longrightarrow>
      error (final (makeMove pf (Fulfilled r_status) p st))
        = JStr (''API error: '' @ string_of_nat (status r_status))) \<and>
   (\<not> ok r_status \<longrightarrow>
      error (final (startNewGame pf (Fulfilled r_status) st))
        = JStr (''API error: '' @ string_of_nat (status r_status))) \<and>
   (\<not> loading st \<and> ok r_body \<and> json r_body = Rejected e \<longrightarrow>
      error (final (makeMove pf (Fulfilled r_body) p st)) = JStr (errorMsg e)) \<and>
   (ok r_body \<and> json r_body = Rejected e \<longrightarrow>
      error (final (startNewGame pf (Fulfilled r_body) st)) = JStr (errorMsg e)) \<and>
   (\<not> loading st \<and> ok r \<and> json r = Fulfilled data \<and> \<not> nullish data \<and>
    \<not> envelope_success_flag data \<longrightarrow>
      error (final (makeMove pf (Fulfilled r) p st))
        = js_or (getprop_opt data ''error'') (JStr ''Failed to process move'')) \<and>
   (ok r \<and> json r = Fulfilled data \<and> \<not> nullish data \<and> \<not> envelope_success_flag data \<longrightarrow>
      error (final (startNewGame pf (Fulfilled r) st))
        = js_or (getprop_opt data ''error'') (JStr ''Failed to start new game'')) \<and>
   (\<not> loading st \<and> ok r_enc \<and> json r_enc = Fulfilled data_enc \<and>
    envelope_success_flag data_enc \<and> page_payload pf data_enc = Inl e \<longrightarrow>
      error (final (makeMove pf (Fulfilled r_enc) p st)) = JStr (errorMsg e)) \<and>
   (ok r_enc \<and> json r_enc = Fulfilled data_enc \<and>
    envelope_success_flag data_enc \<and> page_payload pf data_enc = Inl e \<longrightarrow>
      error (final (startNewGame pf (Fulfilled r_enc) st)) = JStr (errorMsg e)) \<and>
   (\<not> loading st_u \<longrightarrow>
      error (final (makeMove_part000 pf (Rejected e) p st_u)) = JStr (errorMsg e)) \<and>
   error (final (startNewGame_part000 pf (Rejected e) st_u)) = JStr (errorMsg e) \<and>
   (\<not> loading st_u \<and> json r_body = Rejected e \<longrightarrow>
      error (final (makeMove_part000 pf (Fulfilled r_body) p st_u)) = JStr (errorMsg e)) \<and>
   (json r_body = Rejected e \<longrightarrow>
      error (final (startNewGame_part000 pf (Fulfilled r_body) st_u)) = JStr (errorMsg e)) \<and>
   (\<not> loading st_u \<and> json r_u = Fulfilled data_u \<and> \<not> nullish data_u \<and>
    \<not> envelope_status_success data_u \<longrightarrow>
      error (final (makeMove_part000 pf (Fulfilled r_u) p st_u))
        = JStr ''Failed to process move'') \<and>
   (json r_u = Fulfilled data_u \<and> \<not> nullish data_u \<and> \<not> envelope_status_success data_u \<longrightarrow>
      error (final (startNewGame_part000 pf (Fulfilled r_u) st_u))
        = JStr ''Failed to start new game'')"
proof -
  have never: "ended (makeMove pf f p st) \<noteq> Threw x"
    "ended (startNewGame pf f st) \<noteq> Threw x"
    "ended (makeMove_part000 pf f p st_u) \<noteq> Threw x"
    "ended (startNewGame_part000 pf f st_u) \<noteq> Threw x"
    by (simp_all add: makeMove_def startNewGame_def makeMove_part000_def
        startNewGame_part000_def Let_def catch_finally_never_throws)
  have decoded: "envelope_success_flag data_enc \<Longrightarrow> \<not> nullish data_enc"
    by (rule envelope_flag_not_nullish)
  show ?thesis
    by (intro conjI;
        (rule never | simp add: page_flat part000_flat errorMsg_ErrorObj decoded))
qed

theorem faults_are_caught_witness:
  "ended (makeMove example_platform (answer True 200 JNull) 5 example_session) \<noteq> Threw NonError \<and>
   error (final (makeMove example_platform (Rejected (ErrorObj ''Unexpected token'')) 5
                   example_session)) = JStr ''Unexpected token'' \<and>
   error (final (makeMove example_platform (answer False 500 example_envelope) 5
                   example_session)) = JStr ''API error: 500'' \<and>
   error (final (startNewGame example_platform
                   (Fulfilled \<lparr>ok = True, status = 200,
                                json = Rejected (ErrorObj ''Unexpected token'')\<rparr>)
                   example_session)) = JStr ''Unexpected token'' \<and>
   error (final (makeMove example_platform (answer True 200 example_envelope_failure) 5
                   example_session)) = JStr ''Agent unavailable'' \<and>
   error (final (makeMove example_platform (answer True 200 example_envelope_broken) 5
                   example_session)) = JStr ''Unexpected token'' \<and>
   error (final (makeMove_part000 example_platform
                   (Fulfilled \<lparr>ok = True, status = 200,
                                json = Rejected (ErrorObj ''Unexpected token'')\<rparr>)
                   5 example_session_part000)) = JStr ''Unexpected token'' \<and>
   error (final (startNewGame_part000 example_platform (answer True 200 example_envelope_failure)
                   example_session_part000)) = JStr ''Failed to start new game''"
proof -
  have digits: "string_of_nat 500 = ''500''"
    by code_simp
  have h: "\<not> loading example_session" "\<not> loading example_session_part000"
    "\<not> nullish example_envelope_failure"
    "\<not> envelope_success_flag example_envelope_failure"
    "\<not> envelope_status_success example_envelope_failure"
    "envelope_success_flag example_envelope_broken"
    "page_payload example_platform example_envelope_broken = Inl (ErrorObj ''Unexpected token'')"
    "js_or (getprop_opt example_envelope_failure ''error'') (JStr ''Failed to process move'')
       = JStr ''Agent unavailable''"
    by (simp_all add: example_defs nullish_def envelope_success_flag_def
        envelope_status_success_def page_payload_def getprop_opt_def js_or_def)
  show ?thesis
    using h digits faults_are_caught [where pf = example_platform
        and f = "answer True 200 JNull" and p = 5 and st = example_session
        and st_u = example_session_part000 and x = NonError
        and e = "ErrorObj ''Unexpected token''"
        and r_status = "\<lparr>ok = False, status = 500, json = Fulfilled example_envelope\<rparr>"
        and r_body = "\<lparr>ok = True, status = 200, json = Rejected (ErrorObj ''Unexpected token'')\<rparr>"
        and r = "\<lparr>ok = True, status = 200, json = Fulfilled example_envelope_failure\<rparr>"
        and data = example_envelope_failure
        and r_enc = "\<lparr>ok = True, status = 200, json = Fulfilled example_envelope_broken\<rparr>"
        and data_enc = example_envelope_broken
        and r_u = "\<lparr>ok = True, status = 200, json = Fulfilled example_envelope_failure\<rparr>"
        and data_u = example_envelope_failure]
    by (simp add: answer_def errorMsg_ErrorObj)
qed

section \<open>Which cells can be clicked\<close>

lemma GameBoard_cells_array:
  "GameBoard_cells pf (JArr ms) isLoading i cells =
     Inr (map (\<lambda>k. Cell (i + k + 1) (cells ! k)
                       (JNum (int (i + k + 1)) \<in> set ms \<and> \<not> isLoading))
              [0..<length cells])"
proof (induction cells arbitrary: i)
  case Nil
  then show ?case by simp
next
  case (Cons c cells)
  show ?case
    by (simp add: Cons.IH js_includes_def Let_def map_upt_Suc del: upt_Suc)
qed

lemma cell_at_array:
  assumes "getprop_opt gs ''board'' = JArr cells"
    and "getprop_opt gs ''available_moves'' = JArr ms"
    and "1 \<le> p" and "p \<le> length cells"
  shows "cell_at pf gs isLoading p =
           Some (Cell p (cells ! (p - 1)) (JNum (int p) \<in> set ms \<and> \<not> isLoading))"
  using assms
  by (simp add: cell_at_def GameBoard_def js_or_def GameBoard_cells_array)

text \<open>
  C9, as the specification states it, fails: \<open>Cell\<close> is disabled by \<open>isAvailable\<close>
  alone and never by its mark. On a state whose \<open>available_moves\<close> lists a marked
  position, which the page renders like any other, the cell shows its mark and can
  be clicked.
\<close>

theorem marked_cell_clickable:
  "TicTacToe_board example_platform (example_session\<lparr>gameState := example_marked_available\<rparr>)
     = Some (GameBoard example_platform example_marked_available False) \<and>
   cell_at example_platform example_marked_available False 5
     = Some \<lparr>cell_position = 5, displayValue = ''X'', disabled = False\<rparr> \<and>
   shows_mark example_platform example_marked_available False 5 \<and>
   clickable example_platform example_marked_available False 5"
proof -
  have b: "getprop_opt example_marked_available ''board''
             = JArr [JNum 1, JNum 2, JNum 3, JNum 4, JStr ''X'', JNum 6, JNum 7, JNum 8, JNum 9]"
    "getprop_opt example_marked_available ''available_moves''
       = JArr (map JNum [1, 2, 3, 4, 5, 6, 7, 8, 9])"
    by (simp_all add: example_marked_available_def getprop_opt_def)
  have c: "cell_at example_platform example_marked_available False 5
     = Some \<lparr>cell_position = 5, displayValue = ''X'', disabled = False\<rparr>"
    by (simp add: cell_at_array [OF b] Cell_def)
  have t: "TicTacToe_board example_platform
             (example_session\<lparr>gameState := example_marked_available\<rparr>)
     = Some (GameBoard example_platform example_marked_available False)"
    by (simp add: TicTacToe_board_def example_session_def example_marked_available_def)
  from c t show ?thesis
    by (simp add: shows_mark_def clickable_def)
qed

text \<open>
  C9, amended. On every rendered state whose \<open>board\<close> is an array of nine cells and
  whose \<open>available_moves\<close> is an array, and for every position \<open>p\<close> from 1 to 9, the
  cell at \<open>p\<close> can be clicked exactly when \<open>p\<close> is in \<open>available_moves\<close> and \<open>loading\<close>
  is false (and the board is rendered only while \<open>loading\<close> is false). The cell shows
  a mark exactly when its board entry is \<open>"X"\<close> or \<open>"O"\<close>; the mark itself disables
  nothing, so a marked cell cannot be clicked exactly when its position is absent
  from \<open>available_moves\<close>, as it is in every state in which a position is available
  just when its board entry is its own number. When a move removes \<open>p\<close> from
  \<open>available_moves\<close>, cell \<open>p\<close> can no longer be clicked and every other cell can be
  clicked exactly when it could before.
\<close>

theorem clickable_iff_available:
  "(getprop_opt gs ''board'' = JArr cells \<and> length cells = 9 \<and>
    getprop_opt gs ''available_moves'' = JArr ms \<and> 1 \<le> p \<and> p \<le> 9 \<longrightarrow>
      clickable pf gs isLoading p = (JNum (int p) \<in> set ms \<and> \<not> isLoading) \<and>
      shows_mark pf gs isLoading p
        = (cells ! (p - 1) = JStr ''X'' \<or> cells ! (p - 1) = JStr ''O'') \<and>
      (shows_mark pf gs isLoading p \<and> JNum (int p) \<notin> set ms \<longrightarrow>
         \<not> clickable pf gs isLoading p) \<and>
      ((JNum (int p) \<in> set ms) = (cells ! (p - 1) = JNum (int p)) \<and>
       shows_mark pf gs isLoading p \<longrightarrow> \<not> clickable pf gs isLoading p) \<and>
      (getprop_opt gs_next ''board'' = JArr cells_next \<and> length cells_next = 9 \<and>
       getprop_opt gs_next ''available_moves'' = JArr ms_next \<and>
       set ms_next = set ms - {JNum (int p)} \<longrightarrow>
         \<not> clickable pf gs_next isLoading p \<and>
         (\<forall>q. 1 \<le> q \<and> q \<le> 9 \<and> q \<noteq> p \<longrightarrow>
            clickable pf gs_next isLoading q = clickable pf gs isLoading q))) \<and>
   (TicTacToe_board pf st = Some rendered \<longrightarrow>
      \<not> loading st \<and> rendered = GameBoard pf (gameState st) False)"
proof (intro conjI impI)
  assume h: "getprop_opt gs ''board'' = JArr cells \<and> length cells = 9 \<and>
    getprop_opt gs ''available_moves'' = JArr ms \<and> 1 \<le> p \<and> p \<le> 9"
  then have at: "cell_at pf gs isLoading q =
      Some (Cell q (cells ! (q - 1)) (JNum (int q) \<in> set ms \<and> \<not> isLoading))"
    if "1 \<le> q" "q \<le> 9" for q
    using that by (simp add: cell_at_array)
  from h have p: "1 \<le> p" "p \<le> 9"
    by simp_all
  show click: "clickable pf gs isLoading p = (JNum (int p) \<in> set ms \<and> \<not> isLoading)"
    by (simp add: clickable_def at [OF p] Cell_def)
  show mark: "shows_mark pf gs isLoading p
        = (cells ! (p - 1) = JStr ''X'' \<or> cells ! (p - 1) = JStr ''O'')"
    by (simp add: shows_mark_def at [OF p] Cell_def)
  show "\<not> clickable pf gs isLoading p"
    if "shows_mark pf gs isLoading p \<and> JNum (int p) \<notin> set ms"
    using that by (simp add: click)
  show "\<not> clickable pf gs isLoading p"
    if "(JNum (int p) \<in> set ms) = (cells ! (p - 1) = JNum (int p)) \<and>
        shows_mark pf gs isLoading p"
    using that by (auto simp: click mark)
  assume n: "getprop_opt gs_next ''board'' = JArr cells_next \<and> length cells_next = 9 \<and>
       getprop_opt gs_next ''available_moves'' = JArr ms_next \<and>
       set ms_next = set ms - {JNum (int p)}"
  then have at_next: "cell_at pf gs_next isLoading q =
      Some (Cell q (cells_next ! (q - 1)) (JNum (int q) \<in> set ms_next \<and> \<not> isLoading))"
    if "1 \<le> q" "q \<le> 9" for q
    using that by (simp add: cell_at_array)
  show "\<not> clickable pf gs_next isLoading p"
    using n by (simp add: clickable_def at_next [OF p] Cell_def)
  show "\<forall>q. 1 \<le> q \<and> q \<le> 9 \<and> q \<noteq> p \<longrightarrow>
            clickable pf gs_next isLoading q = clickable pf gs isLoading q"
    using n by (simp add: clickable_def at at_next Cell_def)
next
  assume "TicTacToe_board pf st = Some rendered"
  then show "\<not> loading st" and "rendered = GameBoard pf (gameState st) False"
    by (auto simp: TicTacToe_board_def split: if_splits)
qed

theorem clickable_iff_available_witness:
  "clickable example_platform empty_board False 5 \<and>
   \<not> shows_mark example_platform empty_board False 5 \<and>
   shows_mark example_platform example_game_state False 5 \<and>
   \<not> clickable example_platform example_game_state False 5 \<and>
   clickable example_platform example_game_state False 4
     = clickable example_platform empty_board False 4 \<and>
   TicTacToe_board example_platform example_session
     = Some (GameBoard example_platform empty_board False) \<and>
   \<not> loading example_session"
proof -
  have e: "getprop_opt empty_board ''board'' = JArr (map JNum [1, 2, 3, 4, 5, 6, 7, 8, 9])"
    "getprop_opt empty_board ''available_moves'' = JArr (map JNum [1, 2, 3, 4, 5, 6, 7, 8, 9])"
    "length (map JNum [1, 2, 3, 4, 5, 6, 7, 8, 9]) = 9"
    by (simp_all add: empty_board_def getprop_opt_def)
  have x: "getprop_opt example_game_state ''board''
             = JArr [JNum 1, JNum 2, JNum 3, JNum 4, JStr ''X'', JNum 6, JNum 7, JNum 8, JNum 9]"
    "getprop_opt example_game_state ''available_moves''
       = JArr [JNum 1, JNum 2, JNum 3, JNum 4, JNum 6, JNum 7, JNum 8, JNum 9]"
    "length [JNum 1, JNum 2, JNum 3, JNum 4, JStr ''X'', JNum 6, JNum 7, JNum 8, JNum 9] = 9"
    by (simp_all add: example_game_state_def getprop_opt_def)
  have moved: "set [JNum 1, JNum 2, JNum 3, JNum 4, JNum 6, JNum 7, JNum 8, JNum 9]
                 = set (map JNum [1, 2, 3, 4, 5, 6, 7, 8, 9]) - {JNum (int 5)}"
    by auto
  have same: "set [JNum 1, JNum 2, JNum 3, JNum 4, JNum 6, JNum 7, JNum 8, JNum 9]
                 = set [JNum 1, JNum 2, JNum 3, JNum 4, JNum 6, JNum 7, JNum 8, JNum 9]
                   - {JNum (int 5)}"
    by auto
  have r: "TicTacToe_board example_platform example_session
             = Some (GameBoard example_platform empty_board False)"
    by (simp add: TicTacToe_board_def example_session_def empty_board_def)
  have move: "clickable example_platform empty_board False 5 \<and>
     \<not> shows_mark example_platform empty_board False 5 \<and>
     \<not> clickable example_platform example_game_state False 5 \<and>
     clickable example_platform example_game_state False 4
       = clickable example_platform empty_board False 4 \<and>
     \<not> loading example_session"
    using e x moved r
      clickable_iff_available [where pf = example_platform and gs = empty_board
        and cells = "map JNum [1, 2, 3, 4, 5, 6, 7, 8, 9]"
        and ms = "map JNum [1, 2, 3, 4, 5, 6, 7, 8, 9]" and p = 5 and isLoading = False
        and gs_next = example_game_state
        and cells_next = "[JNum 1, JNum 2, JNum 3, JNum 4, JStr ''X'', JNum 6, JNum 7, JNum 8,
                           JNum 9]"
        and ms_next = "[JNum 1, JNum 2, JNum 3, JNum 4, JNum 6, JNum 7, JNum 8, JNum 9]"
        and st = example_session and rendered = "GameBoard example_platform empty_board False"]
    by simp
  have marked: "shows_mark example_platform example_game_state False 5"
    using x same r
      clickable_iff_available [where pf = example_platform and gs = example_game_state
        and cells = "[JNum 1, JNum 2, JNum 3, JNum 4, JStr ''X'', JNum 6, JNum 7, JNum 8, JNum 9]"
        and ms = "[JNum 1, JNum 2, JNum 3, JNum 4, JNum 6, JNum 7, JNum 8, JNum 9]"
        and p = 5 and isLoading = False and gs_next = example_game_state
        and cells_next = "[JNum 1, JNum 2, JNum 3, JNum 4, JStr ''X'', JNum 6, JNum 7, JNum 8,
                           JNum 9]"
        and ms_next = "[JNum 1, JNum 2, JNum 3, JNum 4, JNum 6, JNum 7, JNum 8, JNum 9]"
        and st = example_session and rendered = "GameBoard example_platform empty_board False"]
    by simp
  from move marked r show ?thesis
    by simp
qed

end
